theory Spec2Isabelle
  imports Main
begin

section \<open>Tensors\<close>

text \<open>
  The models of \<^verbatim>\<open>rudders/models/euclidean.py\<close> are written against a tensor library.
  Only the operations the file calls are modelled, on the ranks the file documents.

  \<^item> A rank-1 tensor is the list of its entries.
  \<^item> A rank-2 tensor of shape \<open>B \<times> c\<close> is \<open>Mat c rs\<close> with \<open>rs\<close> the list of its \<open>B\<close> rows.
    The column count is kept beside the rows, since a tensor with no row still has one.
  \<^item> A rank-3 tensor of shape \<open>B1 \<times> B2 \<times> d\<close> is \<open>Tensor3 B2 d ps\<close> with \<open>ps\<close> the list
    of its \<open>B1\<close> planes, each a list of \<open>B2\<close> rows.

  Ids are integers. Embedding entries are the program's floating-point numbers; here they
  range over a type \<open>'a\<close> of which the definitions use the operations \<open>+\<close>, \<open>-\<close>, \<open>*\<close>,
  unary minus and \<open>0\<close> only. A theorem that needs laws of arithmetic states the algebraic
  structure it is proved in (a commutative ring, an ordered ring): such a theorem is about
  exact arithmetic, rounding is not modelled.

  Every error the tensor library raises is a value: a result is \<open>Inl e\<close> or \<open>Inr v\<close>.
\<close>

datatype error =
    SliceOutOfBounds      \<comment> \<open>a column index outside the tensor's second dimension\<close>
  | IndexOutOfRange       \<comment> \<open>an embedding id outside \<open>[0, table rows)\<close>\<close>
  | IncompatibleShapes    \<comment> \<open>operand shapes an operation does not accept\<close>

datatype 'a mat = Mat (ncols: nat) (rows: "'a list list")

datatype 'a tensor3 = Tensor3 (dim2: nat) (dim3: nat) (planes: "'a list list list")

datatype 'a tensor = Rank2 "'a mat" | Rank3 "'a tensor3"

definition nrows :: "'a mat \<Rightarrow> nat" where
  "nrows A = length (rows A)"

definition wf_mat :: "'a mat \<Rightarrow> bool" where
  "wf_mat A = list_all (\<lambda>r. length r = ncols A) (rows A)"

definition wf_tensor3 :: "'a tensor3 \<Rightarrow> bool" where
  "wf_tensor3 T =
     list_all (\<lambda>p. length p = dim2 T \<and> list_all (\<lambda>r. length r = dim3 T) p) (planes T)"

text \<open>
  \<^verbatim>\<open>t[:, k]\<close> on a rank-2 tensor: the column \<open>k\<close> of every row, a rank-1 tensor. A negative
  \<open>k\<close> counts from the last column; an index outside \<open>[-c, c)\<close> is an error.
\<close>

definition slice_column :: "'a mat \<Rightarrow> int \<Rightarrow> error + 'a list" where
  "slice_column A k =
     (let c = int (ncols A); j = (if k < 0 then c + k else k)
      in if 0 \<le> j \<and> j < c then Inr (map (\<lambda>r. r ! nat j) (rows A))
         else Inl SliceOutOfBounds)"

text \<open>
  Elementwise binary operations (\<^verbatim>\<open>tf.multiply\<close>, \<^verbatim>\<open>+\<close>, \<^verbatim>\<open>*\<close>) broadcast: two dimensions
  are compatible when they are equal or one of them is 1, and the operand of size 1 is
  repeated along that dimension.
\<close>

definition broadcast_dim :: "nat \<Rightarrow> nat \<Rightarrow> nat option" where
  "broadcast_dim a b =
     (if a = b then Some a else if a = 1 then Some b else if b = 1 then Some a else None)"

definition stretch :: "nat \<Rightarrow> 'b list \<Rightarrow> 'b list" where
  "stretch n xs = (if length xs = n then xs else replicate n (hd xs))"

definition elementwise :: "('a \<Rightarrow> 'a \<Rightarrow> 'a) \<Rightarrow> 'a mat \<Rightarrow> 'a mat \<Rightarrow> error + 'a mat" where
  "elementwise f A B =
     (case broadcast_dim (nrows A) (nrows B) of
        None \<Rightarrow> Inl IncompatibleShapes
      | Some n \<Rightarrow>
          (case broadcast_dim (ncols A) (ncols B) of
             None \<Rightarrow> Inl IncompatibleShapes
           | Some c \<Rightarrow>
               Inr (Mat c (map2 (\<lambda>r s. map2 f (stretch c r) (stretch c s))
                                (stretch n (rows A)) (stretch n (rows B))))))"

definition tf_add :: "'a::plus mat \<Rightarrow> 'a mat \<Rightarrow> error + 'a mat" where
  "tf_add = elementwise (+)"

definition tf_multiply :: "'a::times mat \<Rightarrow> 'a mat \<Rightarrow> error + 'a mat" where
  "tf_multiply = elementwise (*)"

definition tf_negative :: "'a::uminus mat \<Rightarrow> 'a mat" where
  "tf_negative A = Mat (ncols A) (map (map uminus) (rows A))"

text \<open>\<^verbatim>\<open>tf.reduce_sum(t, axis=-1, keepdims=True)\<close>: every row is replaced by its sum.\<close>

definition reduce_sum :: "'a::{plus,zero} list \<Rightarrow> 'a" where
  "reduce_sum xs = foldr (+) xs 0"

definition tf_reduce_sum_keepdims :: "'a::{plus,zero} mat \<Rightarrow> 'a mat" where
  "tf_reduce_sum_keepdims A = Mat 1 (map (\<lambda>r. [reduce_sum r]) (rows A))"

text \<open>\<^verbatim>\<open>tf.transpose\<close> of a rank-2 tensor, and \<^verbatim>\<open>tf.matmul\<close> of two rank-2 tensors.\<close>

definition tf_transpose :: "'a mat \<Rightarrow> 'a mat" where
  "tf_transpose A = Mat (nrows A) (map (\<lambda>j. map (\<lambda>r. r ! j) (rows A)) [0..<ncols A])"

definition tf_matmul :: "'a::{plus,times,zero} mat \<Rightarrow> 'a mat \<Rightarrow> error + 'a mat" where
  "tf_matmul A B =
     (if ncols A = nrows B
      then Inr (Mat (ncols B)
             (map (\<lambda>r. map (\<lambda>j. reduce_sum (map2 (*) r (map (\<lambda>s. s ! j) (rows B))))
                           [0..<ncols B])
                  (rows A)))
      else Inl IncompatibleShapes)"

section \<open>Model state\<close>

text \<open>
  Modelled from the spec: the classes \<^verbatim>\<open>CFModel\<close> and \<^verbatim>\<open>MuRBase\<close> of
  \<^verbatim>\<open>rudders/models/base.py\<close> are not part of the sources at hand. The spec gives their data:
  an entity embedding table (entity id to vector), a relation embedding table (relation id
  to vector), per-relation transform parameters for MuR, and an embedding dimension fixed
  per model. A table of \<open>n\<close> vectors of dimension \<open>d\<close> is a rank-2 tensor of shape
  \<open>n \<times> d\<close>. The field \<open>transforms\<close> belongs to \<^verbatim>\<open>MuRBase\<close>; the other classes never read it.
\<close>

record 'a model =
  dims :: nat
  entities :: "'a mat"
  relations :: "'a mat"
  transforms :: "'a mat"

definition wf_table :: "nat \<Rightarrow> 'a mat \<Rightarrow> bool" where
  "wf_table d T = (ncols T = d \<and> wf_mat T)"

text \<open>
  The invariant of the spec: every table holds vectors of the model's dimension. The
  transform parameters are per relation, so their table has one row for each relation.
\<close>

definition wf_model :: "'a model \<Rightarrow> bool" where
  "wf_model m =
     (wf_table (dims m) (entities m) \<and> wf_table (dims m) (relations m) \<and>
      wf_table (dims m) (transforms m) \<and> nrows (transforms m) = nrows (relations m))"

text \<open>An id is within the bounds of a table; the vector a table holds for an id.\<close>

definition in_bounds :: "'a mat \<Rightarrow> int \<Rightarrow> bool" where
  "in_bounds T i = (0 \<le> i \<and> i < int (nrows T))"

definition vector_of :: "'a mat \<Rightarrow> int \<Rightarrow> 'a list" where
  "vector_of T i = rows T ! nat i"

text \<open>
  The ids of a batch of id rows are within the bounds of the tables they are looked up in:
  the head ids (first column) and the tail ids (last column) in the entity table, the
  relation ids (second column) in the relation table.
\<close>

definition heads_in_bounds :: "'a model \<Rightarrow> int mat \<Rightarrow> bool" where
  "heads_in_bounds m x = list_all (\<lambda>t. in_bounds (entities m) (t ! 0)) (rows x)"

definition relations_in_bounds :: "'a model \<Rightarrow> int mat \<Rightarrow> bool" where
  "relations_in_bounds m x = list_all (\<lambda>t. in_bounds (relations m) (t ! 1)) (rows x)"

definition tails_in_bounds :: "'a model \<Rightarrow> int mat \<Rightarrow> bool" where
  "tails_in_bounds m x = list_all (\<lambda>t. in_bounds (entities m) (last t)) (rows x)"

definition triples_in_bounds :: "'a model \<Rightarrow> int mat \<Rightarrow> bool" where
  "triples_in_bounds m x =
     (heads_in_bounds m x \<and> relations_in_bounds m x \<and> tails_in_bounds m x)"

text \<open>
  Modelled from the spec: calling an embedding table (\<^verbatim>\<open>self.entities(ids)\<close>) on a rank-1
  tensor of ids looks every id up and stacks the vectors found; an id outside the table's
  bounds is an error raised by the tensor library.
\<close>

definition embedding :: "'a mat \<Rightarrow> int list \<Rightarrow> error + 'a mat" where
  "embedding T ids =
     (if list_all (\<lambda>i. 0 \<le> i \<and> i < int (nrows T)) ids
      then Inr (Mat (ncols T) (map (\<lambda>i. rows T ! nat i) ids))
      else Inl IndexOutOfRange)"

section \<open>Distances\<close>

text \<open>
  Modelled from the spec: \<^verbatim>\<open>rudders/math/euclid.py\<close> is not part of the sources at hand.
  The spec calls what \<^verbatim>\<open>euclidean_sq_distance\<close> computes the squared (Euclidean) distance,
  and the docstring of \<^verbatim>\<open>UserAttentiveEuclidean.similarity_score\<close> gives the shapes:
  with \<open>all_pairs = False\<close> two \<open>B \<times> d\<close> tensors give the \<open>B \<times> 1\<close> tensor of the row by row
  distances; with \<open>all_pairs = True\<close> a \<open>B1 \<times> d\<close> and a \<open>B2 \<times> d\<close> tensor give the
  \<open>B1 \<times> B2\<close> tensor of the distances of every pair of rows. Other shapes are a shape
  mismatch.
\<close>

definition sq_distance :: "'a::{plus,minus,times,zero} list \<Rightarrow> 'a list \<Rightarrow> 'a" where
  "sq_distance u v = reduce_sum (map2 (\<lambda>a b. (a - b) * (a - b)) u v)"

definition euclidean_sq_distance ::
  "'a::{plus,minus,times,zero} mat \<Rightarrow> 'a mat \<Rightarrow> bool \<Rightarrow> error + 'a mat" where
  "euclidean_sq_distance x y all_pairs =
     (if all_pairs then
        (if ncols x = ncols y
         then Inr (Mat (nrows y) (map (\<lambda>u. map (\<lambda>v. sq_distance u v) (rows y)) (rows x)))
         else Inl IncompatibleShapes)
      else
        (if ncols x = ncols y \<and> nrows x = nrows y
         then Inr (Mat 1 (map2 (\<lambda>u v. [sq_distance u v]) (rows x) (rows y)))
         else Inl IncompatibleShapes))"

text \<open>
  Modelled from the spec: \<^verbatim>\<open>euclidean_sq_distance_batched_all_pairs\<close>, of the same missing
  file. By the docstring of its caller it takes a \<open>B1 \<times> d\<close> tensor and a
  \<open>B1 \<times> B2 \<times> d\<close> tensor and gives the \<open>B1 \<times> B2\<close> tensor whose entry \<open>(i, j)\<close> is the
  squared distance of row \<open>i\<close> of the first to row \<open>j\<close> of plane \<open>i\<close> of the second.
\<close>

definition euclidean_sq_distance_batched_all_pairs ::
  "'a::{plus,minus,times,zero} mat \<Rightarrow> 'a tensor3 \<Rightarrow> error + 'a mat" where
  "euclidean_sq_distance_batched_all_pairs x y =
     (if ncols x = dim3 y \<and> nrows x = length (planes y)
      then Inr (Mat (dim2 y) (map2 (\<lambda>u p. map (\<lambda>v. sq_distance u v) p) (rows x) (planes y)))
      else Inl IncompatibleShapes)"

section \<open>The models of euclidean.py\<close>

subsection \<open>CFEuclideanBase\<close>

definition CFEuclideanBase_get_rhs :: "'a model \<Rightarrow> int mat \<Rightarrow> error + 'a mat" where
  "CFEuclideanBase_get_rhs self input_tensor =
     (case slice_column input_tensor (- 1) of
        Inl e \<Rightarrow> Inl e
      | Inr ids \<Rightarrow> embedding (entities self) ids)"

definition CFEuclideanBase_similarity_score ::
  "'a::{plus,minus,times,uminus,zero} mat \<Rightarrow> 'a mat \<Rightarrow> bool \<Rightarrow> error + 'a mat" where
  "CFEuclideanBase_similarity_score lhs rhs all_items =
     (case euclidean_sq_distance lhs rhs all_items of
        Inl e \<Rightarrow> Inl e
      | Inr d \<Rightarrow> Inr (tf_negative d))"

subsection \<open>SimpleFactor\<close>

definition SimpleFactor_get_lhs :: "'a::times model \<Rightarrow> int mat \<Rightarrow> error + 'a mat" where
  "SimpleFactor_get_lhs self input_tensor =
     (case slice_column input_tensor 0 of
        Inl e \<Rightarrow> Inl e
      | Inr head_ids \<Rightarrow>
     (case embedding (entities self) head_ids of
        Inl e \<Rightarrow> Inl e
      | Inr entities' \<Rightarrow>
     (case slice_column input_tensor 1 of
        Inl e \<Rightarrow> Inl e
      | Inr rel_ids \<Rightarrow>
     (case embedding (relations self) rel_ids of
        Inl e \<Rightarrow> Inl e
      | Inr relations' \<Rightarrow> tf_multiply entities' relations'))))"

definition SimpleFactor_similarity_score ::
  "'a::{plus,times,zero} mat \<Rightarrow> 'a mat \<Rightarrow> bool \<Rightarrow> error + 'a mat" where
  "SimpleFactor_similarity_score lhs rhs all_items =
     (if all_items then tf_matmul lhs (tf_transpose rhs)
      else (case tf_multiply lhs rhs of
              Inl e \<Rightarrow> Inl e
            | Inr p \<Rightarrow> Inr (tf_reduce_sum_keepdims p)))"

subsection \<open>TransE\<close>

definition TransE_get_lhs :: "'a::plus model \<Rightarrow> int mat \<Rightarrow> error + 'a mat" where
  "TransE_get_lhs self input_tensor =
     (case slice_column input_tensor 0 of
        Inl e \<Rightarrow> Inl e
      | Inr head_ids \<Rightarrow>
     (case embedding (entities self) head_ids of
        Inl e \<Rightarrow> Inl e
      | Inr entities' \<Rightarrow>
     (case slice_column input_tensor 1 of
        Inl e \<Rightarrow> Inl e
      | Inr rel_ids \<Rightarrow>
     (case embedding (relations self) rel_ids of
        Inl e \<Rightarrow> Inl e
      | Inr relations' \<Rightarrow> tf_add entities' relations'))))"

subsection \<open>MuREuclidean\<close>

definition MuREuclidean_get_lhs :: "'a::times model \<Rightarrow> int mat \<Rightarrow> error + 'a mat" where
  "MuREuclidean_get_lhs self input_tensor =
     (case slice_column input_tensor 0 of
        Inl e \<Rightarrow> Inl e
      | Inr head_ids \<Rightarrow>
     (case embedding (entities self) head_ids of
        Inl e \<Rightarrow> Inl e
      | Inr heads \<Rightarrow>
     (case slice_column input_tensor 1 of
        Inl e \<Rightarrow> Inl e
      | Inr rel_ids \<Rightarrow>
     (case embedding (transforms self) rel_ids of
        Inl e \<Rightarrow> Inl e
      | Inr relation_transforms \<Rightarrow> tf_multiply relation_transforms heads))))"

definition MuREuclidean_get_rhs :: "'a::plus model \<Rightarrow> int mat \<Rightarrow> error + 'a mat" where
  "MuREuclidean_get_rhs self input_tensor =
     (case slice_column input_tensor (- 1) of
        Inl e \<Rightarrow> Inl e
      | Inr tail_ids \<Rightarrow>
     (case embedding (entities self) tail_ids of
        Inl e \<Rightarrow> Inl e
      | Inr tails \<Rightarrow>
     (case slice_column input_tensor 1 of
        Inl e \<Rightarrow> Inl e
      | Inr rel_ids \<Rightarrow>
     (case embedding (relations self) rel_ids of
        Inl e \<Rightarrow> Inl e
      | Inr relation_additions \<Rightarrow> tf_add tails relation_additions))))"

subsection \<open>RotRefEuclidean\<close>

text \<open>
  \<^verbatim>\<open>get_heads\<close> is a method of \<^verbatim>\<open>RotRefBase\<close>, which is not part of the sources at hand and
  which the spec does not describe: it is a parameter of the model of \<^verbatim>\<open>get_lhs\<close>.
\<close>

definition RotRefEuclidean_get_lhs ::
  "('a model \<Rightarrow> int mat \<Rightarrow> error + 'a mat) \<Rightarrow> 'a::plus model \<Rightarrow> int mat \<Rightarrow> error + 'a mat" where
  "RotRefEuclidean_get_lhs get_heads self input_tensor =
     (case get_heads self input_tensor of
        Inl e \<Rightarrow> Inl e
      | Inr head_embeds \<Rightarrow>
     (case slice_column input_tensor 1 of
        Inl e \<Rightarrow> Inl e
      | Inr rel_ids \<Rightarrow>
     (case embedding (relations self) rel_ids of
        Inl e \<Rightarrow> Inl e
      | Inr rel_embeds \<Rightarrow> tf_add head_embeds rel_embeds)))"

subsection \<open>UserAttentiveEuclidean\<close>

text \<open>
  By the docstring \<open>rhs\<close> is \<open>B1 \<times> dims\<close> when \<open>all_items\<close> is false and
  \<open>B1 \<times> B2 \<times> dims\<close> when it is true; a tensor of the other rank is not among the shapes
  the distance functions take.
\<close>

definition UserAttentiveEuclidean_similarity_score ::
  "'a::{plus,minus,times,uminus,zero} mat \<Rightarrow> 'a tensor \<Rightarrow> bool \<Rightarrow> error + 'a mat" where
  "UserAttentiveEuclidean_similarity_score lhs rhs all_items =
     (if all_items then
        (case rhs of
           Rank2 _ \<Rightarrow> Inl IncompatibleShapes
         | Rank3 rhs3 \<Rightarrow>
             (case euclidean_sq_distance_batched_all_pairs lhs rhs3 of
                Inl e \<Rightarrow> Inl e
              | Inr d \<Rightarrow> Inr (tf_negative d)))
      else
        (case rhs of
           Rank3 _ \<Rightarrow> Inl IncompatibleShapes
         | Rank2 rhs2 \<Rightarrow>
             (case euclidean_sq_distance lhs rhs2 False of
                Inl e \<Rightarrow> Inl e
              | Inr d \<Rightarrow> Inr (tf_negative d))))"

section \<open>Method resolution\<close>

text \<open>
  The classes of the file that derive from \<^verbatim>\<open>CFEuclideanBase\<close>. A call of \<open>get_lhs\<close>,
  \<open>get_rhs\<close> or \<open>similarity_score\<close> on an object runs the method its class defines, and the
  method of \<^verbatim>\<open>CFEuclideanBase\<close> where the class defines none. (\<^verbatim>\<open>MuRBase\<close> and \<^verbatim>\<open>RotRefBase\<close>
  come before \<^verbatim>\<open>CFEuclideanBase\<close> in the resolution order of their subclasses; by the spec
  they add parameters, and they are taken to define none of the three methods.)
  \<^verbatim>\<open>UserAttentiveEuclidean\<close> derives from \<^verbatim>\<open>UserAttentiveBase\<close> alone, and the file gives it
  one method, modelled above.
\<close>

datatype model_class = SimpleFactor | TransE | MuREuclidean | RotRefEuclidean

definition get_lhs ::
  "model_class \<Rightarrow> ('a model \<Rightarrow> int mat \<Rightarrow> error + 'a mat) \<Rightarrow> 'a::{plus,times} model \<Rightarrow> int mat
     \<Rightarrow> error + 'a mat" where
  "get_lhs cls get_heads self input_tensor =
     (case cls of
        SimpleFactor \<Rightarrow> SimpleFactor_get_lhs self input_tensor
      | TransE \<Rightarrow> TransE_get_lhs self input_tensor
      | MuREuclidean \<Rightarrow> MuREuclidean_get_lhs self input_tensor
      | RotRefEuclidean \<Rightarrow> RotRefEuclidean_get_lhs get_heads self input_tensor)"

definition get_rhs :: "model_class \<Rightarrow> 'a::plus model \<Rightarrow> int mat \<Rightarrow> error + 'a mat" where
  "get_rhs cls self input_tensor =
     (case cls of
        MuREuclidean \<Rightarrow> MuREuclidean_get_rhs self input_tensor
      | _ \<Rightarrow> CFEuclideanBase_get_rhs self input_tensor)"

definition similarity_score ::
  "model_class \<Rightarrow> 'a::{plus,minus,times,uminus,zero} mat \<Rightarrow> 'a mat \<Rightarrow> bool \<Rightarrow> error + 'a mat" where
  "similarity_score cls lhs rhs all_items =
     (case cls of
        SimpleFactor \<Rightarrow> SimpleFactor_similarity_score lhs rhs all_items
      | _ \<Rightarrow> CFEuclideanBase_similarity_score lhs rhs all_items)"

section \<open>Conforming shapes\<close>

text \<open>
  The operand shapes each \<open>similarity_score\<close> is written for. With \<open>all_items\<close> the two
  tensors hold vectors of the same dimension. Without it the elementwise product of
  \<^verbatim>\<open>SimpleFactor\<close> takes shapes that broadcast against each other, and the distance of
  \<^verbatim>\<open>CFEuclideanBase\<close> takes equal shapes.
\<close>

definition compatible :: "nat \<Rightarrow> nat \<Rightarrow> bool" where
  "compatible a b = (a = b \<or> a = 1 \<or> b = 1)"

definition shapes_conform :: "model_class \<Rightarrow> 'a mat \<Rightarrow> 'a mat \<Rightarrow> bool \<Rightarrow> bool" where
  "shapes_conform cls lhs rhs all_items =
     (if all_items then ncols lhs = ncols rhs
      else if cls = SimpleFactor
        then compatible (nrows lhs) (nrows rhs) \<and> compatible (ncols lhs) (ncols rhs)
      else nrows lhs = nrows rhs \<and> ncols lhs = ncols rhs)"

text \<open>
  \<^verbatim>\<open>UserAttentiveEuclidean\<close>: \<open>rhs\<close> is \<open>B1 \<times> dims\<close> without \<open>all_items\<close> and
  \<open>B1 \<times> B2 \<times> dims\<close> with it, for \<open>lhs\<close> of shape \<open>B1 \<times> dims\<close>.
\<close>

definition shapes_conform_UserAttentive :: "'a mat \<Rightarrow> 'a tensor \<Rightarrow> bool \<Rightarrow> bool" where
  "shapes_conform_UserAttentive lhs rhs all_items =
     (case rhs of
        Rank2 r \<Rightarrow> \<not> all_items \<and> nrows lhs = nrows r \<and> ncols lhs = ncols r
      | Rank3 r \<Rightarrow> all_items \<and> nrows lhs = length (planes r) \<and> ncols lhs = dim3 r)"

section \<open>Method calls and the state of the model\<close>

text \<open>
  To follow what a call does to the object it is made on, every method of the file is
  written once more as an action on the state of the object: a function from the state
  before the call to the result of the call (or the error it raises) and the state after
  it. The body is the body of the source, statement by statement. \<open>bind_action\<close> runs one
  statement and hands its value, and the state it leaves, to the statements after it; an
  error ends the call in the state reached so far. A tensor operation (\<open>pure_op\<close>) computes
  its result from the tensors it is given and has no access to the object.
\<close>

type_synonym ('s, 'r) action = "'s \<Rightarrow> (error + 'r) \<times> 's"

definition pure_op :: "error + 'r \<Rightarrow> ('s, 'r) action" where
  "pure_op r s = (r, s)"

definition bind_action :: "('s, 'q) action \<Rightarrow> ('q \<Rightarrow> ('s, 'r) action) \<Rightarrow> ('s, 'r) action" where
  "bind_action act k s =
     (case act s of
        (Inl e, s') \<Rightarrow> (Inl e, s')
      | (Inr v, s') \<Rightarrow> k v s')"

text \<open>
  Modelled from the spec: calling a table, which belongs to the absent
  \<^verbatim>\<open>rudders/models/base.py\<close>, looks the ids up in the table as the current state holds it
  and leaves the state as it is. By the spec the tables are read-only during inference and
  evaluation; only the external optimizer changes them.
\<close>

definition call_table :: "('a model \<Rightarrow> 'a mat) \<Rightarrow> int list \<Rightarrow> ('a model, 'a mat) action" where
  "call_table table ids self = (embedding (table self) ids, self)"

definition run_CFEuclideanBase_get_rhs :: "int mat \<Rightarrow> ('a model, 'a mat) action" where
  "run_CFEuclideanBase_get_rhs input_tensor =
     bind_action (pure_op (slice_column input_tensor (- 1))) (\<lambda>ids.
     call_table entities ids)"

definition run_CFEuclideanBase_similarity_score ::
  "'a::{plus,minus,times,uminus,zero} mat \<Rightarrow> 'a mat \<Rightarrow> bool \<Rightarrow> ('a model, 'a mat) action" where
  "run_CFEuclideanBase_similarity_score lhs rhs all_items =
     bind_action (pure_op (euclidean_sq_distance lhs rhs all_items)) (\<lambda>d.
     pure_op (Inr (tf_negative d)))"

definition run_SimpleFactor_get_lhs :: "int mat \<Rightarrow> ('a::times model, 'a mat) action" where
  "run_SimpleFactor_get_lhs input_tensor =
     bind_action (pure_op (slice_column input_tensor 0)) (\<lambda>head_ids.
     bind_action (call_table entities head_ids) (\<lambda>entities'.
     bind_action (pure_op (slice_column input_tensor 1)) (\<lambda>rel_ids.
     bind_action (call_table relations rel_ids) (\<lambda>relations'.
     pure_op (tf_multiply entities' relations')))))"

definition run_SimpleFactor_similarity_score ::
  "'a::{plus,times,zero} mat \<Rightarrow> 'a mat \<Rightarrow> bool \<Rightarrow> ('a model, 'a mat) action" where
  "run_SimpleFactor_similarity_score lhs rhs all_items =
     (if all_items then pure_op (tf_matmul lhs (tf_transpose rhs))
      else bind_action (pure_op (tf_multiply lhs rhs)) (\<lambda>p.
           pure_op (Inr (tf_reduce_sum_keepdims p))))"

definition run_TransE_get_lhs :: "int mat \<Rightarrow> ('a::plus model, 'a mat) action" where
  "run_TransE_get_lhs input_tensor =
     bind_action (pure_op (slice_column input_tensor 0)) (\<lambda>head_ids.
     bind_action (call_table entities head_ids) (\<lambda>entities'.
     bind_action (pure_op (slice_column input_tensor 1)) (\<lambda>rel_ids.
     bind_action (call_table relations rel_ids) (\<lambda>relations'.
     pure_op (tf_add entities' relations')))))"

definition run_MuREuclidean_get_lhs :: "int mat \<Rightarrow> ('a::times model, 'a mat) action" where
  "run_MuREuclidean_get_lhs input_tensor =
     bind_action (pure_op (slice_column input_tensor 0)) (\<lambda>head_ids.
     bind_action (call_table entities head_ids) (\<lambda>heads.
     bind_action (pure_op (slice_column input_tensor 1)) (\<lambda>rel_ids.
     bind_action (call_table transforms rel_ids) (\<lambda>relation_transforms.
     pure_op (tf_multiply relation_transforms heads)))))"

definition run_MuREuclidean_get_rhs :: "int mat \<Rightarrow> ('a::plus model, 'a mat) action" where
  "run_MuREuclidean_get_rhs input_tensor =
     bind_action (pure_op (slice_column input_tensor (- 1))) (\<lambda>tail_ids.
     bind_action (call_table entities tail_ids) (\<lambda>tails.
     bind_action (pure_op (slice_column input_tensor 1)) (\<lambda>rel_ids.
     bind_action (call_table relations rel_ids) (\<lambda>relation_additions.
     pure_op (tf_add tails relation_additions)))))"

text \<open>
  \<open>get_heads\<close> of the absent \<^verbatim>\<open>RotRefBase\<close> is a parameter here as well: some action on the
  state.
\<close>

definition run_RotRefEuclidean_get_lhs ::
  "(int mat \<Rightarrow> ('a model, 'a mat) action) \<Rightarrow> int mat \<Rightarrow> ('a::plus model, 'a mat) action" where
  "run_RotRefEuclidean_get_lhs get_heads input_tensor =
     bind_action (get_heads input_tensor) (\<lambda>head_embeds.
     bind_action (pure_op (slice_column input_tensor 1)) (\<lambda>rel_ids.
     bind_action (call_table relations rel_ids) (\<lambda>rel_embeds.
     pure_op (tf_add head_embeds rel_embeds))))"

definition run_UserAttentiveEuclidean_similarity_score ::
  "'a::{plus,minus,times,uminus,zero} mat \<Rightarrow> 'a tensor \<Rightarrow> bool \<Rightarrow> ('a model, 'a mat) action" where
  "run_UserAttentiveEuclidean_similarity_score lhs rhs all_items =
     (if all_items then
        (case rhs of
           Rank2 _ \<Rightarrow> pure_op (Inl IncompatibleShapes)
         | Rank3 rhs3 \<Rightarrow>
             bind_action (pure_op (euclidean_sq_distance_batched_all_pairs lhs rhs3)) (\<lambda>d.
             pure_op (Inr (tf_negative d))))
      else
        (case rhs of
           Rank3 _ \<Rightarrow> pure_op (Inl IncompatibleShapes)
         | Rank2 rhs2 \<Rightarrow>
             bind_action (pure_op (euclidean_sq_distance lhs rhs2 False)) (\<lambda>d.
             pure_op (Inr (tf_negative d)))))"

section \<open>A concrete model and batch\<close>

text \<open>Three entities and two relations in dimension 2, and a batch of two triples.\<close>

definition ex_model :: "int model" where
  "ex_model = \<lparr>dims = 2, entities = Mat 2 [[1, 2], [3, 5], [0, - 1]],
     relations = Mat 2 [[1, 1], [2, 0]], transforms = Mat 2 [[2, 3], [1, - 1]]\<rparr>"

definition ex_batch :: "int mat" where
  "ex_batch = Mat 3 [[0, 1, 2], [1, 0, 0]]"

text \<open>A batch of one column.\<close>

definition ex_narrow_batch :: "int mat" where
  "ex_narrow_batch = Mat 1 [[2], [0], [1]]"

text \<open>A stand-in for \<open>get_heads\<close>: the head embeddings as they are in the entity table.\<close>

definition ex_get_heads :: "int model \<Rightarrow> int mat \<Rightarrow> error + int mat" where
  "ex_get_heads self input_tensor =
     (case slice_column input_tensor 0 of
        Inl e \<Rightarrow> Inl e
      | Inr ids \<Rightarrow> embedding (entities self) ids)"

text \<open>The same stand-in as an action on the state.\<close>

definition ex_run_get_heads :: "int mat \<Rightarrow> (int model, int mat) action" where
  "ex_run_get_heads input_tensor =
     bind_action (pure_op (slice_column input_tensor 0)) (\<lambda>ids.
     call_table entities ids)"

text \<open>A batch whose relation id and tail id are out of bounds.\<close>

definition ex_bad_batch :: "int mat" where
  "ex_bad_batch = Mat 3 [[0, 5, 3]]"

text \<open>Operands of \<open>similarity_score\<close>.\<close>

definition ex_lhs :: "int mat" where
  "ex_lhs = Mat 2 [[1, 2], [3, 4]]"

definition ex_rhs :: "int mat" where
  "ex_rhs = Mat 2 [[1, 2], [0, - 1], [5, 7]]"

definition ex_scored :: "int mat" where
  "ex_scored = Mat 2 [[1, 2], [0, 0]]"

definition ex_rhs3 :: "int tensor3" where
  "ex_rhs3 = Tensor3 3 2 [[[1, 2], [0, 0], [2, 4]], [[3, 3], [0, 4], [3, 4]]]"

section \<open>Basic facts about the tensor operations\<close>

subsection \<open>Slicing, lookup and elementwise operations\<close>

lemma slice_column_last:
  assumes "wf_mat x" "0 < ncols x"
  shows "slice_column x (- 1) = Inr (map last (rows x))"
proof -
  have "r ! (ncols x - 1) = last r" if "r \<in> set (rows x)" for r
  proof -
    from that assms have "length r = ncols x" "r \<noteq> []"
      by (auto simp: wf_mat_def list_all_iff)
    then show ?thesis by (simp add: last_conv_nth)
  qed
  moreover have "nat (int (ncols x) - 1) = ncols x - 1"
    by (simp add: nat_diff_distrib)
  ultimately show ?thesis
    using assms(2) by (simp add: slice_column_def Let_def)
qed

lemma slice_column_nonneg:
  "0 \<le> k \<Longrightarrow> k < int (ncols x) \<Longrightarrow> slice_column x k = Inr (map (\<lambda>r. r ! nat k) (rows x))"
  by (simp add: slice_column_def)

lemma embedding_ok:
  "list_all (in_bounds T) ids \<Longrightarrow>
   embedding T ids = Inr (Mat (ncols T) (map (vector_of T) ids))"
  by (simp add: embedding_def in_bounds_def[abs_def] vector_of_def[abs_def])

lemma broadcast_dim_same [simp]: "broadcast_dim n n = Some n"
  by (simp add: broadcast_dim_def)

lemma stretch_same [simp]: "length xs = n \<Longrightarrow> stretch n xs = xs"
  by (simp add: stretch_def)

lemma map2_stretch_rows:
  "list_all (\<lambda>r. length r = c) rs \<Longrightarrow> list_all (\<lambda>r. length r = c) ss \<Longrightarrow>
   map2 (\<lambda>r s. map2 f (stretch c r) (stretch c s)) rs ss = map2 (map2 f) rs ss"
  by (induction rs ss rule: list_induct2') auto

lemma elementwise_same_shape:
  "wf_mat A \<Longrightarrow> wf_mat B \<Longrightarrow> nrows A = nrows B \<Longrightarrow> ncols A = ncols B \<Longrightarrow>
   elementwise f A B = Inr (Mat (ncols A) (map2 (map2 f) (rows A) (rows B)))"
  by (simp add: elementwise_def wf_mat_def nrows_def map2_stretch_rows)

lemma wf_mat_Mat [simp]: "wf_mat (Mat c rs) = list_all (\<lambda>r. length r = c) rs"
  by (simp add: wf_mat_def)

lemma nrows_Mat [simp]: "nrows (Mat c rs) = length rs"
  by (simp add: nrows_def)

lemma length_vector_of:
  "wf_mat T \<Longrightarrow> in_bounds T i \<Longrightarrow> length (vector_of T i) = ncols T"
  by (auto simp: wf_mat_def in_bounds_def vector_of_def list_all_length nrows_def nat_less_iff)

lemma wf_lookup:
  "wf_mat T \<Longrightarrow> list_all (in_bounds T) ids \<Longrightarrow>
   list_all (\<lambda>r. length r = ncols T) (map (vector_of T) ids)"
  by (simp add: list_all_iff length_vector_of)

lemma map2_map_map: "map2 f (map g xs) (map h xs) = map (\<lambda>x. f (g x) (h x)) xs"
  by (induction xs) auto

lemma lookup_column:
  "list_all (\<lambda>t. in_bounds T (g t)) ts \<Longrightarrow> list_all (in_bounds T) (map g ts)"
  by (simp add: list_all_iff)

subsection \<open>The values of get_lhs and get_rhs\<close>

lemma get_rhs_value:
  assumes "wf_mat x" "0 < ncols x" "list_all (\<lambda>t. in_bounds (entities m) (last t)) (rows x)"
  shows "CFEuclideanBase_get_rhs m x =
           Inr (Mat (ncols (entities m)) (map (\<lambda>t. vector_of (entities m) (last t)) (rows x)))"
  using assms
  by (simp add: CFEuclideanBase_get_rhs_def slice_column_last embedding_ok lookup_column o_def)

lemma lookup_then_combine:
  assumes "wf_mat T" "wf_mat U" "ncols T = ncols U"
    and "list_all (\<lambda>t. in_bounds T (g t)) ts" "list_all (\<lambda>t. in_bounds U (h t)) ts"
  shows "elementwise f (Mat (ncols T) (map (vector_of T) (map g ts)))
                       (Mat (ncols U) (map (vector_of U) (map h ts))) =
         Inr (Mat (ncols T) (map (\<lambda>t. map2 f (vector_of T (g t)) (vector_of U (h t))) ts))"
proof -
  have "wf_mat (Mat (ncols T) (map (vector_of T) (map g ts)))"
    using assms(1,4) by (simp add: wf_lookup lookup_column del: map_map)
  moreover have "wf_mat (Mat (ncols U) (map (vector_of U) (map h ts)))"
    using assms(2,5) by (simp add: wf_lookup lookup_column del: map_map)
  ultimately show ?thesis
    using assms(3) by (simp add: elementwise_same_shape map2_map_map o_def)
qed

lemma TransE_get_lhs_value:
  assumes "wf_mat (entities m)" "wf_mat (relations m)" "ncols (entities m) = ncols (relations m)"
    and "1 < ncols x"
    and "list_all (\<lambda>t. in_bounds (entities m) (t ! 0)) (rows x)"
    and "list_all (\<lambda>t. in_bounds (relations m) (t ! 1)) (rows x)"
  shows "TransE_get_lhs m x =
           Inr (Mat (ncols (entities m))
                 (map (\<lambda>t. map2 (+) (vector_of (entities m) (t ! 0))
                                     (vector_of (relations m) (t ! 1))) (rows x)))"
proof -
  have "slice_column x 0 = Inr (map (\<lambda>t. t ! 0) (rows x))"
    and "slice_column x 1 = Inr (map (\<lambda>t. t ! 1) (rows x))"
    using assms(4) by (simp_all add: slice_column_nonneg)
  then show ?thesis
    using assms lookup_then_combine[of "entities m" "relations m" "\<lambda>t. t ! 0" "rows x" "\<lambda>t. t ! 1" "(+)"]
    by (simp add: TransE_get_lhs_def embedding_ok lookup_column tf_add_def del: map_map)
qed

lemma score_of_rows:
  "CFEuclideanBase_similarity_score (Mat d (map g ts)) (Mat d (map h ts)) False =
     Inr (Mat 1 (map (\<lambda>t. [- sq_distance (g t) (h t)]) ts))"
  by (simp add: CFEuclideanBase_similarity_score_def euclidean_sq_distance_def tf_negative_def
      map2_map_map o_def)

lemma triples_in_boundsD:
  assumes "triples_in_bounds m x"
  shows "list_all (\<lambda>t. in_bounds (entities m) (t ! 0)) (rows x)"
    and "list_all (\<lambda>t. in_bounds (relations m) (t ! 1)) (rows x)"
    and "list_all (\<lambda>t. in_bounds (entities m) (last t)) (rows x)"
  using assms
  by (simp_all add: triples_in_bounds_def heads_in_bounds_def relations_in_bounds_def
      tails_in_bounds_def)

lemma wf_modelD:
  assumes "wf_model m"
  shows "wf_mat (entities m)" "wf_mat (relations m)" "wf_mat (transforms m)"
    and "ncols (entities m) = dims m" "ncols (relations m) = dims m"
    and "ncols (transforms m) = dims m" "nrows (transforms m) = nrows (relations m)"
  using assms by (simp_all add: wf_model_def wf_table_def)

lemma ex_model_ok: "wf_model ex_model"
  by (simp add: ex_model_def wf_model_def wf_table_def)

lemma ex_batch_ok:
  "wf_mat ex_batch" "ncols ex_batch = 3" "triples_in_bounds ex_model ex_batch"
  by (simp_all add: ex_batch_def ex_model_def triples_in_bounds_def heads_in_bounds_def
      relations_in_bounds_def tails_in_bounds_def in_bounds_def)

lemma in_bounds_same_rows: "nrows T = nrows U \<Longrightarrow> in_bounds T i = in_bounds U i"
  by (simp add: in_bounds_def)

lemma SimpleFactor_get_lhs_value:
  assumes "wf_mat (entities m)" "wf_mat (relations m)" "ncols (entities m) = ncols (relations m)"
    and "1 < ncols x"
    and "list_all (\<lambda>t. in_bounds (entities m) (t ! 0)) (rows x)"
    and "list_all (\<lambda>t. in_bounds (relations m) (t ! 1)) (rows x)"
  shows "SimpleFactor_get_lhs m x =
           Inr (Mat (ncols (entities m))
                 (map (\<lambda>t. map2 (*) (vector_of (entities m) (t ! 0))
                                     (vector_of (relations m) (t ! 1))) (rows x)))"
proof -
  have "slice_column x 0 = Inr (map (\<lambda>t. t ! 0) (rows x))"
    and "slice_column x 1 = Inr (map (\<lambda>t. t ! 1) (rows x))"
    using assms(4) by (simp_all add: slice_column_nonneg)
  then show ?thesis
    using assms lookup_then_combine[of "entities m" "relations m" "\<lambda>t. t ! 0" "rows x" "\<lambda>t. t ! 1" "(*)"]
    by (simp add: SimpleFactor_get_lhs_def embedding_ok lookup_column tf_multiply_def del: map_map)
qed

lemma MuREuclidean_get_lhs_value:
  assumes "wf_mat (entities m)" "wf_mat (transforms m)" "ncols (transforms m) = ncols (entities m)"
    and "1 < ncols x"
    and "list_all (\<lambda>t. in_bounds (entities m) (t ! 0)) (rows x)"
    and "list_all (\<lambda>t. in_bounds (transforms m) (t ! 1)) (rows x)"
  shows "MuREuclidean_get_lhs m x =
           Inr (Mat (ncols (transforms m))
                 (map (\<lambda>t. map2 (*) (vector_of (transforms m) (t ! 1))
                                     (vector_of (entities m) (t ! 0))) (rows x)))"
proof -
  have "slice_column x 0 = Inr (map (\<lambda>t. t ! 0) (rows x))"
    and "slice_column x 1 = Inr (map (\<lambda>t. t ! 1) (rows x))"
    using assms(4) by (simp_all add: slice_column_nonneg)
  then show ?thesis
    using assms lookup_then_combine[of "transforms m" "entities m" "\<lambda>t. t ! 1" "rows x" "\<lambda>t. t ! 0" "(*)"]
    by (simp add: MuREuclidean_get_lhs_def embedding_ok lookup_column tf_multiply_def del: map_map)
qed

lemma MuREuclidean_get_rhs_value:
  assumes "wf_mat (entities m)" "wf_mat (relations m)" "ncols (entities m) = ncols (relations m)"
    and "wf_mat x" "1 < ncols x"
    and "list_all (\<lambda>t. in_bounds (entities m) (last t)) (rows x)"
    and "list_all (\<lambda>t. in_bounds (relations m) (t ! 1)) (rows x)"
  shows "MuREuclidean_get_rhs m x =
           Inr (Mat (ncols (entities m))
                 (map (\<lambda>t. map2 (+) (vector_of (entities m) (last t))
                                     (vector_of (relations m) (t ! 1))) (rows x)))"
proof -
  have "slice_column x (- 1) = Inr (map last (rows x))"
    and "slice_column x 1 = Inr (map (\<lambda>t. t ! 1) (rows x))"
    using assms(4,5) by (simp_all add: slice_column_nonneg slice_column_last)
  then show ?thesis
    using assms lookup_then_combine[of "entities m" "relations m" last "rows x" "\<lambda>t. t ! 1" "(+)"]
    by (simp add: MuREuclidean_get_rhs_def embedding_ok lookup_column tf_add_def del: map_map)
qed

lemma slice_column_0:
  "slice_column x 0 = (if 0 < ncols x then Inr (map (\<lambda>t. t ! 0) (rows x)) else Inl SliceOutOfBounds)"
  by (simp add: slice_column_def)

lemma slice_column_1:
  "slice_column x 1 = (if 1 < ncols x then Inr (map (\<lambda>t. t ! 1) (rows x)) else Inl SliceOutOfBounds)"
  by (simp add: slice_column_def)

lemma slice_column_minus_1:
  "wf_mat x \<Longrightarrow>
   slice_column x (- 1) = (if 0 < ncols x then Inr (map last (rows x)) else Inl SliceOutOfBounds)"
  by (simp add: slice_column_last) (simp add: slice_column_def)

lemma embedding_if:
  "embedding T ids =
     (if list_all (in_bounds T) ids then Inr (Mat (ncols T) (map (vector_of T) ids))
      else Inl IndexOutOfRange)"
  by (simp add: embedding_def in_bounds_def[abs_def] vector_of_def[abs_def])

lemma wf_combined_rows:
  assumes "wf_mat T" "wf_mat U" "ncols T = d" "ncols U = d"
    and "list_all (\<lambda>t. in_bounds T (g t)) ts" "list_all (\<lambda>t. in_bounds U (h t)) ts"
  shows "list_all (\<lambda>v. length v = d) (map (\<lambda>t. map2 f (vector_of T (g t)) (vector_of U (h t))) ts)"
  using assms by (auto simp: list_all_iff length_vector_of)

lemma wf_looked_up_rows:
  assumes "wf_mat T" "ncols T = d" "list_all (\<lambda>t. in_bounds T (g t)) ts"
  shows "list_all (\<lambda>v. length v = d) (map (\<lambda>t. vector_of T (g t)) ts)"
  using assms by (auto simp: list_all_iff length_vector_of)

lemma RotRefEuclidean_get_lhs_value:
  assumes "get_heads m x = Inr h" "wf_mat h" "ncols h = ncols (relations m)" "nrows h = nrows x"
    and "wf_mat (relations m)" "1 < ncols x" "list_all (\<lambda>t. in_bounds (relations m) (t ! 1)) (rows x)"
  shows "RotRefEuclidean_get_lhs get_heads m x =
           Inr (Mat (ncols h)
                 (map2 (map2 (+)) (rows h) (map (\<lambda>t. vector_of (relations m) (t ! 1)) (rows x))))"
proof -
  let ?R = "Mat (ncols (relations m)) (map (vector_of (relations m)) (map (\<lambda>t. t ! 1) (rows x)))"
  have "wf_mat ?R"
    using assms(5,7) by (simp add: wf_lookup lookup_column del: map_map)
  moreover have "nrows h = nrows ?R" "ncols h = ncols ?R"
    using assms(3,4) by (simp_all add: nrows_def)
  ultimately have "elementwise (+) h ?R = Inr (Mat (ncols h) (map2 (map2 (+)) (rows h) (rows ?R)))"
    using assms(2) by (rule elementwise_same_shape[rotated])
  then show ?thesis
    using assms(1,6,7)
    by (simp add: RotRefEuclidean_get_lhs_def slice_column_1 embedding_ok lookup_column
        tf_add_def del: map_map) (simp add: o_def)
qed

lemma wf_map2_rows:
  assumes "list_all (\<lambda>v. length v = d) rs" "list_all (\<lambda>v. length v = d) ss"
  shows "list_all (\<lambda>v. length v = d) (map2 (map2 f) rs ss)"
  using assms by (induction rs ss rule: list_induct2') auto

subsection \<open>When the methods fail\<close>

lemma broadcast_dim_None_iff: "broadcast_dim a b = None \<longleftrightarrow> \<not> compatible a b"
  by (auto simp: broadcast_dim_def compatible_def)

lemma isl_elementwise:
  "isl (elementwise f A B) \<longleftrightarrow> \<not> (compatible (nrows A) (nrows B) \<and> compatible (ncols A) (ncols B))"
  by (auto simp: elementwise_def broadcast_dim_None_iff[symmetric] split: option.splits)

lemma isl_CFEuclideanBase_get_rhs:
  assumes "wf_mat x"
  shows "isl (CFEuclideanBase_get_rhs m x) \<longleftrightarrow> \<not> (0 < ncols x \<and> tails_in_bounds m x)"
  using assms
  by (simp add: CFEuclideanBase_get_rhs_def slice_column_minus_1 embedding_if list.pred_map
      o_def tails_in_bounds_def)

lemma isl_SimpleFactor_get_lhs:
  assumes "wf_model m"
  shows "isl (SimpleFactor_get_lhs m x) \<longleftrightarrow>
           \<not> (1 < ncols x \<and> heads_in_bounds m x \<and> relations_in_bounds m x)"
proof (cases "1 < ncols x \<and> heads_in_bounds m x \<and> relations_in_bounds m x")
  case True
  then show ?thesis
    using SimpleFactor_get_lhs_value[of m x] wf_modelD[OF assms]
    by (simp add: heads_in_bounds_def relations_in_bounds_def)
next
  case False
  then show ?thesis
    by (auto simp: SimpleFactor_get_lhs_def slice_column_0 slice_column_1 embedding_if
        list.pred_map o_def heads_in_bounds_def relations_in_bounds_def split: sum.splits)
qed

lemma isl_TransE_get_lhs:
  assumes "wf_model m"
  shows "isl (TransE_get_lhs m x) \<longleftrightarrow>
           \<not> (1 < ncols x \<and> heads_in_bounds m x \<and> relations_in_bounds m x)"
proof (cases "1 < ncols x \<and> heads_in_bounds m x \<and> relations_in_bounds m x")
  case True
  then show ?thesis
    using TransE_get_lhs_value[of m x] wf_modelD[OF assms]
    by (simp add: heads_in_bounds_def relations_in_bounds_def)
next
  case False
  then show ?thesis
    by (auto simp: TransE_get_lhs_def slice_column_0 slice_column_1 embedding_if
        list.pred_map o_def heads_in_bounds_def relations_in_bounds_def split: sum.splits)
qed

lemma isl_MuREuclidean_get_lhs:
  assumes "wf_model m"
  shows "isl (MuREuclidean_get_lhs m x) \<longleftrightarrow>
           \<not> (1 < ncols x \<and> heads_in_bounds m x \<and> relations_in_bounds m x)"
proof (cases "1 < ncols x \<and> heads_in_bounds m x \<and> relations_in_bounds m x")
  case True
  then show ?thesis
    using MuREuclidean_get_lhs_value[of m x] wf_modelD[OF assms]
    by (simp add: heads_in_bounds_def relations_in_bounds_def
        in_bounds_same_rows[of "transforms m" "relations m"])
next
  case False
  then show ?thesis
    using wf_modelD(7)[OF assms]
    by (auto simp: MuREuclidean_get_lhs_def slice_column_0 slice_column_1 embedding_if
        list.pred_map o_def heads_in_bounds_def relations_in_bounds_def
        in_bounds_same_rows[of "transforms m" "relations m"] split: sum.splits)
qed

lemma isl_MuREuclidean_get_rhs:
  assumes "wf_model m" "wf_mat x"
  shows "isl (MuREuclidean_get_rhs m x) \<longleftrightarrow>
           \<not> (1 < ncols x \<and> tails_in_bounds m x \<and> relations_in_bounds m x)"
proof (cases "1 < ncols x \<and> tails_in_bounds m x \<and> relations_in_bounds m x")
  case True
  then show ?thesis
    using MuREuclidean_get_rhs_value[of m x] wf_modelD[OF assms(1)] assms(2)
    by (simp add: tails_in_bounds_def relations_in_bounds_def)
next
  case False
  then show ?thesis
    using assms(2)
    by (auto simp: MuREuclidean_get_rhs_def slice_column_minus_1 slice_column_1 embedding_if
        list.pred_map o_def tails_in_bounds_def relations_in_bounds_def split: sum.splits)
qed

lemma isl_RotRefEuclidean_get_lhs:
  assumes "wf_model m" "get_heads m x = Inr h" "wf_mat h" "ncols h = dims m" "nrows h = nrows x"
  shows "isl (RotRefEuclidean_get_lhs get_heads m x) \<longleftrightarrow>
           \<not> (1 < ncols x \<and> relations_in_bounds m x)"
proof (cases "1 < ncols x \<and> relations_in_bounds m x")
  case True
  then show ?thesis
    using RotRefEuclidean_get_lhs_value[of get_heads m x h] wf_modelD[OF assms(1)] assms(2-)
    by (simp add: relations_in_bounds_def)
next
  case False
  then show ?thesis
    using assms(2)
    by (auto simp: RotRefEuclidean_get_lhs_def slice_column_1 embedding_if
        list.pred_map o_def relations_in_bounds_def split: sum.splits)
qed

lemma isl_RotRefEuclidean_get_lhs_heads:
  "isl (get_heads m x) \<Longrightarrow> isl (RotRefEuclidean_get_lhs get_heads m x)"
  by (auto simp: RotRefEuclidean_get_lhs_def isl_def)

lemma isl_CFEuclideanBase_similarity_score:
  "isl (CFEuclideanBase_similarity_score lhs rhs all_items) \<longleftrightarrow>
     \<not> (if all_items then ncols lhs = ncols rhs
        else nrows lhs = nrows rhs \<and> ncols lhs = ncols rhs)"
  by (auto simp: CFEuclideanBase_similarity_score_def euclidean_sq_distance_def)

lemma isl_SimpleFactor_similarity_score:
  "isl (SimpleFactor_similarity_score lhs rhs all_items) \<longleftrightarrow>
     \<not> (if all_items then ncols lhs = ncols rhs
        else compatible (nrows lhs) (nrows rhs) \<and> compatible (ncols lhs) (ncols rhs))"
proof (cases all_items)
  case True
  then show ?thesis
    by (simp add: SimpleFactor_similarity_score_def tf_matmul_def tf_transpose_def nrows_def)
next
  case False
  have "isl (case tf_multiply lhs rhs of Inl e \<Rightarrow> Inl e | Inr p \<Rightarrow> Inr (tf_reduce_sum_keepdims p))
          = isl (elementwise (*) lhs rhs)"
    by (simp add: tf_multiply_def split: sum.splits)
  with False show ?thesis
    by (simp add: SimpleFactor_similarity_score_def isl_elementwise)
qed

lemma isl_UserAttentiveEuclidean_similarity_score:
  "isl (UserAttentiveEuclidean_similarity_score lhs rhs all_items) \<longleftrightarrow>
     \<not> shapes_conform_UserAttentive lhs rhs all_items"
  by (auto simp: UserAttentiveEuclidean_similarity_score_def shapes_conform_UserAttentive_def
      euclidean_sq_distance_def euclidean_sq_distance_batched_all_pairs_def
      split: tensor.splits)

subsection \<open>Matrix product\<close>

lemma column_of_transpose:
  assumes "wf_mat B" "j < nrows B"
  shows "map (\<lambda>s. s ! j) (rows (tf_transpose B)) = rows B ! j"
proof -
  have len: "length (rows B ! j) = ncols B"
    using assms by (simp add: wf_mat_def nrows_def list_all_length)
  have "map (\<lambda>s. s ! j) (rows (tf_transpose B)) = map (\<lambda>k. rows B ! j ! k) [0..<ncols B]"
    using assms(2) by (simp add: tf_transpose_def nrows_def)
  also have "\<dots> = rows B ! j"
    using len map_nth[of "rows B ! j"] by simp
  finally show ?thesis .
qed

lemma matmul_transpose_entry:
  fixes lhs rhs :: "'a::{plus,times,zero} mat"
  assumes "wf_mat rhs" "ncols lhs = ncols rhs" "i < nrows lhs" "j < nrows rhs"
  shows "\<exists>s. tf_matmul lhs (tf_transpose rhs) = Inr s \<and> nrows s = nrows lhs \<and>
           ncols s = nrows rhs \<and> wf_mat s \<and>
           rows s ! i ! j = reduce_sum (map2 (*) (rows lhs ! i) (rows rhs ! j))"
proof -
  let ?s = "Mat (nrows rhs)
      (map (\<lambda>r. map (\<lambda>j. reduce_sum (map2 (*) r (map (\<lambda>s. s ! j) (rows (tf_transpose rhs)))))
                    [0..<nrows rhs]) (rows lhs))"
  have "tf_matmul lhs (tf_transpose rhs) = Inr ?s"
    using assms(2) by (simp add: tf_matmul_def tf_transpose_def nrows_def)
  moreover have "rows ?s ! i ! j = reduce_sum (map2 (*) (rows lhs ! i) (rows rhs ! j))"
    using assms(3,4) column_of_transpose[OF assms(1,4)] by (simp add: nrows_def)
  moreover have "wf_mat ?s" "nrows ?s = nrows lhs" "ncols ?s = nrows rhs"
    by (simp_all add: list_all_iff nrows_def)
  ultimately show ?thesis by blast
qed

lemma SimpleFactor_score_of_rows:
  fixes u v :: "'a::{plus,times,zero} list"
  assumes "length u = d" "length v = d"
  shows "SimpleFactor_similarity_score (Mat d [u]) (Mat d [v]) False =
           Inr (Mat 1 [[reduce_sum (map2 (*) u v)]])"
  using assms elementwise_same_shape[of "Mat d [u]" "Mat d [v]" "(*)"]
  by (simp add: SimpleFactor_similarity_score_def tf_multiply_def tf_reduce_sum_keepdims_def)

lemma wf_mat_row: "wf_mat A \<Longrightarrow> i < nrows A \<Longrightarrow> length (rows A ! i) = ncols A"
  by (simp add: wf_mat_def nrows_def list_all_length)

subsection \<open>Squared distance and symmetry\<close>

lemma sq_distance_Nil [simp]: "sq_distance [] v = 0" "sq_distance u [] = 0"
  by (simp_all add: sq_distance_def reduce_sum_def)

lemma sq_distance_Cons [simp]:
  "sq_distance (a # u) (b # v) = (a - b) * (a - b) + sq_distance u v"
  by (simp add: sq_distance_def reduce_sum_def)

lemma sq_distance_nonneg:
  fixes u v :: "'a::linordered_idom list"
  shows "0 \<le> sq_distance u v"
  by (induction u v rule: list_induct2') simp_all

lemma sq_distance_zero_iff:
  fixes u v :: "'a::linordered_idom list"
  assumes "length u = length v"
  shows "sq_distance u v = 0 \<longleftrightarrow> u = v"
  using assms
proof (induction u v rule: list_induct2)
  case Nil
  then show ?case by simp
next
  case (Cons a u b v)
  have "(a - b) * (a - b) + sq_distance u v = 0 \<longleftrightarrow>
          (a - b) * (a - b) = 0 \<and> sq_distance u v = 0"
    by (intro add_nonneg_eq_0_iff) (simp_all add: sq_distance_nonneg)
  with Cons show ?case by simp
qed

lemma sq_distance_commute:
  fixes u v :: "'a::comm_ring list"
  shows "sq_distance u v = sq_distance v u"
proof (induction u v rule: list_induct2')
  case (4 a u b v)
  have "(a - b) * (a - b) = (b - a) * (b - a)"
    by (simp add: algebra_simps)
  with 4 show ?case by simp
qed simp_all

lemma map2_commute:
  assumes "\<And>a b. f a b = g b a"
  shows "map2 f xs ys = map2 g ys xs"
  by (induction xs ys rule: list_induct2') (simp_all add: assms)

lemma broadcast_dim_commute: "broadcast_dim a b = broadcast_dim b a"
  by (simp add: broadcast_dim_def)

lemma elementwise_commute:
  assumes "\<And>a b. f a b = f b a"
  shows "elementwise f A B = elementwise f B A"
proof -
  have "map2 (\<lambda>r s. map2 f (stretch c r) (stretch c s)) rs ss =
        map2 (\<lambda>r s. map2 f (stretch c r) (stretch c s)) ss rs" for c rs ss
    by (rule map2_commute, rule map2_commute, rule assms)
  then show ?thesis
    by (simp add: elementwise_def broadcast_dim_commute[of "nrows A"]
        broadcast_dim_commute[of "ncols A"] split: option.splits)
qed

lemma score_of_matching_rows:
  assumes "nrows lhs = nrows rhs" "ncols lhs = ncols rhs" "i < nrows lhs"
  shows "\<exists>s. CFEuclideanBase_similarity_score lhs rhs False = Inr s \<and> nrows s = nrows lhs \<and>
           ncols s = 1 \<and> rows s ! i = [- sq_distance (rows lhs ! i) (rows rhs ! i)]"
  using assms
  by (simp add: CFEuclideanBase_similarity_score_def euclidean_sq_distance_def tf_negative_def
      nrows_def)

lemma wf_tensor3_row:
  assumes "wf_tensor3 T" "i < length (planes T)" "j < dim2 T"
  shows "length (planes T ! i) = dim2 T" "length (planes T ! i ! j) = dim3 T"
  using assms by (simp_all add: wf_tensor3_def list_all_length)

lemma UserAttentive_score_of_rows:
  fixes u v :: "'a::{plus,minus,times,uminus,zero} list"
  shows "UserAttentiveEuclidean_similarity_score (Mat d [u]) (Rank2 (Mat d [v])) False =
           Inr (Mat 1 [[- sq_distance u v]])"
  by (simp add: UserAttentiveEuclidean_similarity_score_def euclidean_sq_distance_def
      tf_negative_def)

subsection \<open>Methods as actions on the state\<close>

lemma bind_pure_op:
  "bind_action (pure_op r) k s = (case r of Inl e \<Rightarrow> (Inl e, s) | Inr v \<Rightarrow> k v s)"
  by (simp add: bind_action_def pure_op_def split: sum.splits)

lemma bind_call_table:
  "bind_action (call_table table ids) k s =
     (case embedding (table s) ids of Inl e \<Rightarrow> (Inl e, s) | Inr v \<Rightarrow> k v s)"
  by (simp add: bind_action_def call_table_def split: sum.splits)

lemma run_CFEuclideanBase_get_rhs:
  "run_CFEuclideanBase_get_rhs x self = (CFEuclideanBase_get_rhs self x, self)"
  by (simp add: run_CFEuclideanBase_get_rhs_def CFEuclideanBase_get_rhs_def bind_pure_op
      call_table_def split: sum.splits)

lemma run_CFEuclideanBase_similarity_score:
  "run_CFEuclideanBase_similarity_score lhs rhs all_items self =
     (CFEuclideanBase_similarity_score lhs rhs all_items, self)"
  by (simp add: run_CFEuclideanBase_similarity_score_def CFEuclideanBase_similarity_score_def
      bind_pure_op pure_op_def split: sum.splits)

lemma run_SimpleFactor_get_lhs:
  "run_SimpleFactor_get_lhs x self = (SimpleFactor_get_lhs self x, self)"
  by (simp add: run_SimpleFactor_get_lhs_def SimpleFactor_get_lhs_def bind_pure_op
      bind_call_table pure_op_def split: sum.splits)

lemma run_SimpleFactor_similarity_score:
  "run_SimpleFactor_similarity_score lhs rhs all_items self =
     (SimpleFactor_similarity_score lhs rhs all_items, self)"
  by (simp add: run_SimpleFactor_similarity_score_def SimpleFactor_similarity_score_def
      bind_pure_op pure_op_def split: sum.splits)

lemma run_TransE_get_lhs:
  "run_TransE_get_lhs x self = (TransE_get_lhs self x, self)"
  by (simp add: run_TransE_get_lhs_def TransE_get_lhs_def bind_pure_op
      bind_call_table pure_op_def split: sum.splits)

lemma run_MuREuclidean_get_lhs:
  "run_MuREuclidean_get_lhs x self = (MuREuclidean_get_lhs self x, self)"
  by (simp add: run_MuREuclidean_get_lhs_def MuREuclidean_get_lhs_def bind_pure_op
      bind_call_table pure_op_def split: sum.splits)

lemma run_MuREuclidean_get_rhs:
  "run_MuREuclidean_get_rhs x self = (MuREuclidean_get_rhs self x, self)"
  by (simp add: run_MuREuclidean_get_rhs_def MuREuclidean_get_rhs_def bind_pure_op
      bind_call_table pure_op_def split: sum.splits)

lemma run_RotRefEuclidean_get_lhs:
  assumes "snd (get_heads x self) = self"
  shows "run_RotRefEuclidean_get_lhs get_heads x self =
           (RotRefEuclidean_get_lhs (\<lambda>m y. fst (get_heads y m)) self x, self)"
proof -
  obtain r where r: "get_heads x self = (r, self)"
    using assms by (cases "get_heads x self") simp
  show ?thesis
    by (simp add: run_RotRefEuclidean_get_lhs_def RotRefEuclidean_get_lhs_def bind_pure_op
        bind_call_table pure_op_def bind_action_def[of "get_heads x"] r split: sum.splits)
qed

lemma run_UserAttentiveEuclidean_similarity_score:
  "run_UserAttentiveEuclidean_similarity_score lhs rhs all_items self =
     (UserAttentiveEuclidean_similarity_score lhs rhs all_items, self)"
  by (simp add: run_UserAttentiveEuclidean_similarity_score_def
      UserAttentiveEuclidean_similarity_score_def bind_pure_op pure_op_def
      split: sum.splits tensor.splits)

section \<open>The claims\<close>

text \<open>
  Claim C1. For every batch of (head, relation, tail) id triples within table bounds, the
  score of TransE, that is \<open>similarity_score\<close> applied to \<open>get_lhs\<close> and \<open>get_rhs\<close> of the
  batch, is row by row the negative squared Euclidean distance between the head embedding
  plus the relation embedding and the tail embedding.
\<close>

theorem TransE_score:
  fixes m :: "'a::{plus,minus,times,uminus,zero} model"
  assumes "wf_model m" and "wf_mat x" and "ncols x = 3" and "triples_in_bounds m x"
  shows "\<exists>lhs rhs. TransE_get_lhs m x = Inr lhs \<and> CFEuclideanBase_get_rhs m x = Inr rhs \<and>
           CFEuclideanBase_similarity_score lhs rhs False =
             Inr (Mat 1 (map (\<lambda>t. [- sq_distance
                                      (map2 (+) (vector_of (entities m) (t ! 0))
                                                (vector_of (relations m) (t ! 1)))
                                      (vector_of (entities m) (last t))])
                             (rows x)))"
proof -
  note wf = wf_modelD[OF assms(1)] and ib = triples_in_boundsD[OF assms(4)]
  have "TransE_get_lhs m x =
          Inr (Mat (dims m) (map (\<lambda>t. map2 (+) (vector_of (entities m) (t ! 0))
                                               (vector_of (relations m) (t ! 1))) (rows x)))"
    using TransE_get_lhs_value[of m x] wf ib assms(3) by simp
  moreover have "CFEuclideanBase_get_rhs m x =
          Inr (Mat (dims m) (map (\<lambda>t. vector_of (entities m) (last t)) (rows x)))"
    using get_rhs_value[of x m] wf ib assms(2,3) by simp
  ultimately show ?thesis
    by (simp add: score_of_rows)
qed

text \<open>Claim C1 on the concrete model: the scores of the two triples are -18 and -25.\<close>

theorem TransE_score_witness:
  "wf_model ex_model \<and> wf_mat ex_batch \<and> ncols ex_batch = 3 \<and>
   triples_in_bounds ex_model ex_batch \<and>
   (\<exists>lhs rhs. TransE_get_lhs ex_model ex_batch = Inr lhs \<and>
      CFEuclideanBase_get_rhs ex_model ex_batch = Inr rhs \<and>
      CFEuclideanBase_similarity_score lhs rhs False = Inr (Mat 1 [[- 18], [- 25]]))"
proof -
  have "(\<lambda>t. [- sq_distance
                 (map2 (+) (vector_of (entities ex_model) (t ! 0))
                           (vector_of (relations ex_model) (t ! 1)))
                 (vector_of (entities ex_model) (last t))]) [0, 1, 2] = [- 18]"
    by (simp add: ex_model_def vector_of_def sq_distance_def reduce_sum_def)
  moreover have "(\<lambda>t. [- sq_distance
                 (map2 (+) (vector_of (entities ex_model) (t ! 0))
                           (vector_of (relations ex_model) (t ! 1)))
                 (vector_of (entities ex_model) (last t))]) [1, 0, 0] = [- 25]"
    by (simp add: ex_model_def vector_of_def sq_distance_def reduce_sum_def)
  ultimately show ?thesis
    using TransE_score[OF ex_model_ok ex_batch_ok] ex_model_ok ex_batch_ok
    by (simp add: ex_batch_def)
qed

text \<open>
  Claim C2. For every batch of (head, relation, tail) id triples within table bounds,
  \<open>MuREuclidean.get_lhs\<close> is the elementwise product of the relation's transform vector with
  the head embedding, \<open>MuREuclidean.get_rhs\<close> is the tail embedding plus the relation vector,
  and so the score is the negative squared Euclidean distance between the two.
\<close>

theorem MuREuclidean_lhs_rhs_score:
  fixes m :: "'a::{plus,minus,times,uminus,zero} model"
  assumes "wf_model m" and "wf_mat x" and "ncols x = 3" and "triples_in_bounds m x"
  shows "MuREuclidean_get_lhs m x =
           Inr (Mat (dims m) (map (\<lambda>t. map2 (*) (vector_of (transforms m) (t ! 1))
                                                (vector_of (entities m) (t ! 0))) (rows x))) \<and>
         MuREuclidean_get_rhs m x =
           Inr (Mat (dims m) (map (\<lambda>t. map2 (+) (vector_of (entities m) (last t))
                                                (vector_of (relations m) (t ! 1))) (rows x))) \<and>
         (\<exists>lhs rhs. MuREuclidean_get_lhs m x = Inr lhs \<and> MuREuclidean_get_rhs m x = Inr rhs \<and>
            CFEuclideanBase_similarity_score lhs rhs False =
              Inr (Mat 1 (map (\<lambda>t. [- sq_distance
                                       (map2 (*) (vector_of (transforms m) (t ! 1))
                                                 (vector_of (entities m) (t ! 0)))
                                       (map2 (+) (vector_of (entities m) (last t))
                                                 (vector_of (relations m) (t ! 1)))])
                              (rows x))))"
proof -
  note wf = wf_modelD[OF assms(1)] and ib = triples_in_boundsD[OF assms(4)]
  have tb: "list_all (\<lambda>t. in_bounds (transforms m) (t ! 1)) (rows x)"
    using ib(2) by (simp add: in_bounds_same_rows[OF wf(7)])
  have l: "MuREuclidean_get_lhs m x =
           Inr (Mat (dims m) (map (\<lambda>t. map2 (*) (vector_of (transforms m) (t ! 1))
                                                (vector_of (entities m) (t ! 0))) (rows x)))"
    using MuREuclidean_get_lhs_value[of m x] wf ib tb assms(3) by simp
  have r: "MuREuclidean_get_rhs m x =
           Inr (Mat (dims m) (map (\<lambda>t. map2 (+) (vector_of (entities m) (last t))
                                                (vector_of (relations m) (t ! 1))) (rows x)))"
    using MuREuclidean_get_rhs_value[of m x] wf ib assms(2,3) by simp
  show ?thesis
    by (simp add: l r score_of_rows)
qed

text \<open>Claim C2 on the concrete model: the scores of the two triples are -2 and -160.\<close>

theorem MuREuclidean_lhs_rhs_score_witness:
  "wf_model ex_model \<and> wf_mat ex_batch \<and> ncols ex_batch = 3 \<and>
   triples_in_bounds ex_model ex_batch \<and>
   MuREuclidean_get_lhs ex_model ex_batch = Inr (Mat 2 [[1, - 2], [6, 15]]) \<and>
   MuREuclidean_get_rhs ex_model ex_batch = Inr (Mat 2 [[2, - 1], [2, 3]]) \<and>
   (\<exists>lhs rhs. MuREuclidean_get_lhs ex_model ex_batch = Inr lhs \<and>
      MuREuclidean_get_rhs ex_model ex_batch = Inr rhs \<and>
      CFEuclideanBase_similarity_score lhs rhs False = Inr (Mat 1 [[- 2], [- 160]]))"
proof -
  have "vector_of (entities ex_model) 0 = [1, 2]" "vector_of (entities ex_model) 1 = [3, 5]"
    "vector_of (entities ex_model) 2 = [0, - 1]"
    "vector_of (relations ex_model) 0 = [1, 1]" "vector_of (relations ex_model) 1 = [2, 0]"
    "vector_of (transforms ex_model) 0 = [2, 3]" "vector_of (transforms ex_model) 1 = [1, - 1]"
    by (simp_all add: ex_model_def vector_of_def)
  moreover have "dims ex_model = 2" "rows ex_batch = [[0, 1, 2], [1, 0, 0]]"
    by (simp_all add: ex_model_def ex_batch_def)
  ultimately show ?thesis
    using MuREuclidean_lhs_rhs_score[OF ex_model_ok ex_batch_ok] ex_model_ok ex_batch_ok
    by (auto simp: sq_distance_def reduce_sum_def)
qed

text \<open>
  Claim C3. For \<open>UserAttentiveEuclidean.similarity_score\<close> the path of \<open>all_items = True\<close>, on
  \<open>lhs\<close> of shape \<open>B1 \<times> dims\<close> and \<open>rhs\<close> of shape \<open>B1 \<times> B2 \<times> dims\<close>, returns a
  \<open>B1 \<times> B2\<close> tensor whose entry \<open>(i, j)\<close> is the negative squared Euclidean distance
  between \<open>lhs[i]\<close> and \<open>rhs[i][j]\<close>, which is the score the path of \<open>all_items = False\<close>
  gives to these two rows.
\<close>

theorem UserAttentive_all_items_agrees:
  fixes lhs :: "'a::{plus,minus,times,uminus,zero} mat"
  assumes "wf_mat lhs" and "wf_tensor3 rhs" and "nrows lhs = length (planes rhs)"
    and "ncols lhs = dim3 rhs" and "i < nrows lhs" and "j < dim2 rhs"
  shows "\<exists>s. UserAttentiveEuclidean_similarity_score lhs (Rank3 rhs) True = Inr s \<and>
           nrows s = nrows lhs \<and> ncols s = dim2 rhs \<and> wf_mat s \<and>
           rows s ! i ! j = - sq_distance (rows lhs ! i) (planes rhs ! i ! j) \<and>
           UserAttentiveEuclidean_similarity_score (Mat (ncols lhs) [rows lhs ! i])
               (Rank2 (Mat (dim3 rhs) [planes rhs ! i ! j])) False =
             Inr (Mat 1 [[rows s ! i ! j]])"
proof -
  let ?s = "tf_negative (Mat (dim2 rhs)
      (map2 (\<lambda>u p. map (\<lambda>v. sq_distance u v) p) (rows lhs) (planes rhs)))"
  have i': "i < length (planes rhs)" "i < length (rows lhs)"
    using assms(3,5) by (simp_all add: nrows_def)
  have "UserAttentiveEuclidean_similarity_score lhs (Rank3 rhs) True = Inr ?s"
    using assms(3,4)
    by (simp add: UserAttentiveEuclidean_similarity_score_def
        euclidean_sq_distance_batched_all_pairs_def)
  moreover have "nrows ?s = nrows lhs" "ncols ?s = dim2 rhs"
    using assms(3) by (simp_all add: tf_negative_def nrows_def)
  moreover have "wf_mat ?s"
    using assms(2,3)
    by (auto simp: tf_negative_def wf_tensor3_def list_all_length nrows_def)
  moreover have e: "rows ?s ! i ! j = - sq_distance (rows lhs ! i) (planes rhs ! i ! j)"
    using i' assms(6) wf_tensor3_row(1)[OF assms(2) i'(1) assms(6)]
    by (simp add: tf_negative_def)
  moreover have "UserAttentiveEuclidean_similarity_score (Mat (ncols lhs) [rows lhs ! i])
               (Rank2 (Mat (dim3 rhs) [planes rhs ! i ! j])) False =
             Inr (Mat 1 [[rows ?s ! i ! j]])"
    using assms(4) by (simp only: e UserAttentive_score_of_rows)
  ultimately show ?thesis by blast
qed

text \<open>Claim C3 on concrete operands, at the entry \<open>(1, 1)\<close>.\<close>

theorem UserAttentive_all_items_agrees_witness:
  "wf_mat ex_lhs \<and> wf_tensor3 ex_rhs3 \<and> nrows ex_lhs = length (planes ex_rhs3) \<and>
   ncols ex_lhs = dim3 ex_rhs3 \<and> 1 < nrows ex_lhs \<and> 1 < dim2 ex_rhs3 \<and>
   UserAttentiveEuclidean_similarity_score ex_lhs (Rank3 ex_rhs3) True =
     Inr (Mat 3 [[0, - 5, - 5], [- 1, - 9, 0]]) \<and>
   UserAttentiveEuclidean_similarity_score (Mat 2 [[3, 4]]) (Rank2 (Mat 2 [[0, 4]])) False =
     Inr (Mat 1 [[- 9 :: int]])"
proof -
  have h: "wf_mat ex_lhs" "wf_tensor3 ex_rhs3" "nrows ex_lhs = length (planes ex_rhs3)"
    "ncols ex_lhs = dim3 ex_rhs3" "1 < nrows ex_lhs" "1 < dim2 ex_rhs3"
    by (simp_all add: ex_lhs_def ex_rhs3_def wf_tensor3_def)
  have v: "UserAttentiveEuclidean_similarity_score ex_lhs (Rank3 ex_rhs3) True =
      Inr (Mat 3 [[0, - 5, - 5], [- 1, - 9, 0]])"
    by (simp add: UserAttentiveEuclidean_similarity_score_def
        euclidean_sq_distance_batched_all_pairs_def tf_negative_def ex_lhs_def ex_rhs3_def)
  show ?thesis
    using UserAttentive_all_items_agrees[OF h] h v
    by (auto simp: ex_lhs_def ex_rhs3_def)
qed

text \<open>
  Claim C4 says that \<open>get_rhs\<close> of every Euclidean model is the entity embedding looked up
  at the last column of each input row. As stated it fails: \<^verbatim>\<open>MuREuclidean\<close> overrides
  \<open>get_rhs\<close> and adds the relation vector. On the concrete model the tail embeddings of the
  batch are \<open>[0, -1]\<close> and \<open>[1, 2]\<close>, and \<open>get_rhs\<close> of \<^verbatim>\<open>MuREuclidean\<close> is \<open>[2, -1]\<close> and
  \<open>[2, 3]\<close>.
\<close>

theorem get_rhs_MuREuclidean_counterexample:
  "slice_column ex_batch (- 1) = Inr [2, 0] \<and>
   embedding (entities ex_model) [2, 0] = Inr (Mat 2 [[0, - 1], [1, 2]]) \<and>
   get_rhs MuREuclidean ex_model ex_batch = Inr (Mat 2 [[2, - 1], [2, 3]]) \<and>
   get_rhs MuREuclidean ex_model ex_batch \<noteq> embedding (entities ex_model) [2, 0]"
  by (simp add: get_rhs_def MuREuclidean_get_rhs_def slice_column_def embedding_def
      tf_add_def elementwise_def ex_model_def ex_batch_def nrows_def broadcast_dim_def
      stretch_def)

text \<open>
  Claim C4, amended. For every class that inherits \<open>get_rhs\<close> from \<^verbatim>\<open>CFEuclideanBase\<close> (every
  class but \<^verbatim>\<open>MuREuclidean\<close>) and every batch with at least one column whose last-column ids
  are within the bounds of the entity table, \<open>get_rhs\<close> is the entity embedding looked up at
  the last column of each row, however many columns the batch has. \<open>get_rhs\<close> of
  \<^verbatim>\<open>MuREuclidean\<close> is that embedding plus the relation vector of the second column.
\<close>

theorem get_rhs_tail_embedding:
  fixes m :: "'a::plus model"
  assumes "wf_mat x" and "0 < ncols x" and "tails_in_bounds m x"
  shows "(cls \<noteq> MuREuclidean \<longrightarrow>
            get_rhs cls m x =
              Inr (Mat (ncols (entities m))
                    (map (\<lambda>t. vector_of (entities m) (last t)) (rows x)))) \<and>
         (wf_model m \<and> 1 < ncols x \<and> relations_in_bounds m x \<longrightarrow>
            get_rhs MuREuclidean m x =
              Inr (Mat (ncols (entities m))
                    (map (\<lambda>t. map2 (+) (vector_of (entities m) (last t))
                                        (vector_of (relations m) (t ! 1))) (rows x))))"
proof (intro conjI impI)
  assume "cls \<noteq> MuREuclidean"
  then have "get_rhs cls m x = CFEuclideanBase_get_rhs m x"
    by (cases cls) (simp_all add: get_rhs_def)
  then show "get_rhs cls m x =
      Inr (Mat (ncols (entities m)) (map (\<lambda>t. vector_of (entities m) (last t)) (rows x)))"
    using get_rhs_value[of x m] assms by (simp add: tails_in_bounds_def)
next
  assume a: "wf_model m \<and> 1 < ncols x \<and> relations_in_bounds m x"
  then have wf: "wf_mat (entities m)" "wf_mat (relations m)"
      "ncols (entities m) = ncols (relations m)"
    using wf_modelD[of m] by simp_all
  show "get_rhs MuREuclidean m x =
      Inr (Mat (ncols (entities m))
            (map (\<lambda>t. map2 (+) (vector_of (entities m) (last t))
                                (vector_of (relations m) (t ! 1))) (rows x)))"
    using MuREuclidean_get_rhs_value[OF wf assms(1)] a assms(3)
    by (simp add: get_rhs_def tails_in_bounds_def relations_in_bounds_def)
qed

text \<open>
  Claim C4, amended, on the concrete model: a batch of one column and a batch of three,
  for a class that inherits \<open>get_rhs\<close> and for \<^verbatim>\<open>MuREuclidean\<close>.
\<close>

theorem get_rhs_tail_embedding_witness:
  "wf_mat ex_narrow_batch \<and> 0 < ncols ex_narrow_batch \<and> tails_in_bounds ex_model ex_narrow_batch \<and>
   TransE \<noteq> MuREuclidean \<and>
   get_rhs TransE ex_model ex_narrow_batch = Inr (Mat 2 [[0, - 1], [1, 2], [3, 5]]) \<and>
   wf_mat ex_batch \<and> 0 < ncols ex_batch \<and> tails_in_bounds ex_model ex_batch \<and>
   wf_model ex_model \<and> 1 < ncols ex_batch \<and> relations_in_bounds ex_model ex_batch \<and>
   get_rhs TransE ex_model ex_batch = Inr (Mat 2 [[0, - 1], [1, 2]]) \<and>
   get_rhs MuREuclidean ex_model ex_batch = Inr (Mat 2 [[2, - 1], [2, 3]])"
proof -
  have n: "wf_mat ex_narrow_batch" "0 < ncols ex_narrow_batch"
    "tails_in_bounds ex_model ex_narrow_batch"
    by (simp_all add: ex_narrow_batch_def ex_model_def tails_in_bounds_def in_bounds_def)
  have b: "wf_mat ex_batch" "0 < ncols ex_batch" "tails_in_bounds ex_model ex_batch"
    "1 < ncols ex_batch" "relations_in_bounds ex_model ex_batch"
    using ex_batch_ok by (simp_all add: triples_in_bounds_def)
  have v: "vector_of (entities ex_model) 0 = [1, 2]" "vector_of (entities ex_model) 1 = [3, 5]"
    "vector_of (entities ex_model) 2 = [0, - 1]"
    "vector_of (relations ex_model) 0 = [1, 1]" "vector_of (relations ex_model) 1 = [2, 0]"
    "ncols (entities ex_model) = 2"
    by (simp_all add: ex_model_def vector_of_def)
  show ?thesis
    using get_rhs_tail_embedding[OF n, of TransE] get_rhs_tail_embedding[OF b(1-3), of TransE]
      n b v ex_model_ok
    by (simp add: ex_narrow_batch_def ex_batch_def)
qed

text \<open>
  Claim C5. Every call of \<open>get_lhs\<close>, \<open>get_rhs\<close> or \<open>similarity_score\<close>, on any class of the
  file, leaves the state of the model, and so the entity, relation and transform tables,
  as it was: the bodies of the methods only call the tables, which are read, and tensor
  operations. For \<^verbatim>\<open>RotRefEuclidean\<close> this is under the hypothesis that the call of
  \<open>get_heads\<close>, which is not in the sources, leaves the state as it was.
\<close>

theorem scoring_leaves_tables_unchanged:
  fixes self :: "'a::{plus,minus,times,uminus,zero} model"
  shows "snd (run_CFEuclideanBase_get_rhs x self) = self \<and>
         snd (run_CFEuclideanBase_similarity_score lhs rhs all_items self) = self \<and>
         snd (run_SimpleFactor_get_lhs x self) = self \<and>
         snd (run_SimpleFactor_similarity_score lhs rhs all_items self) = self \<and>
         snd (run_TransE_get_lhs x self) = self \<and>
         snd (run_MuREuclidean_get_lhs x self) = self \<and>
         snd (run_MuREuclidean_get_rhs x self) = self \<and>
         (snd (get_heads x self) = self \<longrightarrow>
            snd (run_RotRefEuclidean_get_lhs get_heads x self) = self) \<and>
         snd (run_UserAttentiveEuclidean_similarity_score lhs rhs' all_items self) = self"
proof (intro conjI impI)
  show "snd (run_CFEuclideanBase_get_rhs x self) = self"
    by (simp add: run_CFEuclideanBase_get_rhs)
  show "snd (run_CFEuclideanBase_similarity_score lhs rhs all_items self) = self"
    by (simp add: run_CFEuclideanBase_similarity_score)
  show "snd (run_SimpleFactor_get_lhs x self) = self"
    by (simp add: run_SimpleFactor_get_lhs)
  show "snd (run_SimpleFactor_similarity_score lhs rhs all_items self) = self"
    by (simp add: run_SimpleFactor_similarity_score)
  show "snd (run_TransE_get_lhs x self) = self"
    by (simp add: run_TransE_get_lhs)
  show "snd (run_MuREuclidean_get_lhs x self) = self"
    by (simp add: run_MuREuclidean_get_lhs)
  show "snd (run_MuREuclidean_get_rhs x self) = self"
    by (simp add: run_MuREuclidean_get_rhs)
  show "snd (run_RotRefEuclidean_get_lhs get_heads x self) = self"
    if "snd (get_heads x self) = self"
    using that by (simp add: run_RotRefEuclidean_get_lhs)
  show "snd (run_UserAttentiveEuclidean_similarity_score lhs rhs' all_items self) = self"
    by (simp add: run_UserAttentiveEuclidean_similarity_score)
qed

text \<open>
  Claim C5 on the concrete model, with the stand-in \<open>get_heads\<close>: calls that return a value
  and a call that raises an error all leave the model as it was.
\<close>

theorem scoring_leaves_tables_unchanged_witness:
  "snd (ex_run_get_heads ex_batch ex_model) = ex_model \<and>
   run_RotRefEuclidean_get_lhs ex_run_get_heads ex_batch ex_model =
     (Inr (Mat 2 [[3, 2], [4, 6]]), ex_model) \<and>
   snd (run_RotRefEuclidean_get_lhs ex_run_get_heads ex_batch ex_model) = ex_model \<and>
   run_MuREuclidean_get_rhs ex_batch ex_model = (Inr (Mat 2 [[2, - 1], [2, 3]]), ex_model) \<and>
   run_MuREuclidean_get_rhs ex_bad_batch ex_model = (Inl IndexOutOfRange, ex_model) \<and>
   snd (run_MuREuclidean_get_rhs ex_bad_batch ex_model) = ex_model"
proof -
  have e: "run_MuREuclidean_get_rhs ex_bad_batch ex_model = (Inl IndexOutOfRange, ex_model)"
    by (simp add: run_MuREuclidean_get_rhs_def bind_pure_op bind_call_table pure_op_def
        slice_column_def embedding_def ex_bad_batch_def ex_model_def nrows_def)
  have h: "ex_run_get_heads ex_batch ex_model = (Inr (Mat 2 [[1, 2], [3, 5]]), ex_model)"
    by (simp add: ex_run_get_heads_def bind_pure_op call_table_def slice_column_def
        embedding_def ex_batch_def ex_model_def nrows_def)
  have v: "run_RotRefEuclidean_get_lhs ex_run_get_heads ex_batch ex_model =
      (Inr (Mat 2 [[3, 2], [4, 6]]), ex_model)"
    by (simp add: run_RotRefEuclidean_get_lhs_def bind_action_def h pure_op_def call_table_def)
      (simp add: bind_pure_op bind_call_table pure_op_def slice_column_def embedding_def
        tf_add_def elementwise_def broadcast_dim_def stretch_def ex_batch_def ex_model_def
        nrows_def)
  have w: "run_MuREuclidean_get_rhs ex_batch ex_model =
      (Inr (Mat 2 [[2, - 1], [2, 3]]), ex_model)"
    by (simp add: run_MuREuclidean_get_rhs_def bind_pure_op bind_call_table pure_op_def
        slice_column_def embedding_def tf_add_def elementwise_def broadcast_dim_def stretch_def
        ex_batch_def ex_model_def nrows_def)
  show ?thesis
    using scoring_leaves_tables_unchanged[where self = ex_model and x = ex_batch
        and get_heads = ex_run_get_heads]
      scoring_leaves_tables_unchanged[where self = ex_model and x = ex_bad_batch
        and get_heads = ex_run_get_heads] h v w e
    by simp
qed

text \<open>
  Claim C6. For every batch whose entity and relation ids are within table bounds,
  \<open>get_lhs\<close> and \<open>get_rhs\<close> of every model return one vector for each row of the batch,
  each of the model's embedding dimension, so the two tensors passed to
  \<open>similarity_score\<close> have the same last dimension. For \<^verbatim>\<open>RotRefEuclidean\<close> this is under
  the hypothesis that \<open>get_heads\<close>, which is not in the sources, returns such vectors.
\<close>

theorem lhs_rhs_dimension:
  fixes m :: "'a::{plus,times} model"
  assumes "wf_model m" and "wf_mat x" and "1 < ncols x" and "triples_in_bounds m x"
    and "cls = RotRefEuclidean \<longrightarrow>
           (\<exists>h. get_heads m x = Inr h \<and> wf_mat h \<and> ncols h = dims m \<and> nrows h = nrows x)"
  shows "\<exists>lhs rhs. get_lhs cls get_heads m x = Inr lhs \<and> get_rhs cls m x = Inr rhs \<and>
           list_all (\<lambda>v. length v = dims m) (rows lhs) \<and>
           list_all (\<lambda>v. length v = dims m) (rows rhs) \<and>
           ncols lhs = dims m \<and> ncols rhs = dims m \<and> ncols lhs = ncols rhs \<and>
           nrows lhs = nrows x \<and> nrows rhs = nrows x"
proof -
  note wf = wf_modelD[OF assms(1)] and ib = triples_in_boundsD[OF assms(4)]
  have tb: "list_all (\<lambda>t. in_bounds (transforms m) (t ! 1)) (rows x)"
    using ib(2) by (simp add: in_bounds_same_rows[OF wf(7)])
  have pos: "0 < ncols x" using assms(3) by simp
  have base: "CFEuclideanBase_get_rhs m x =
      Inr (Mat (dims m) (map (\<lambda>t. vector_of (entities m) (last t)) (rows x)))"
    using get_rhs_value[OF assms(2) pos ib(3)] wf by simp
  have base_wf: "list_all (\<lambda>v. length v = dims m)
      (map (\<lambda>t. vector_of (entities m) (last t)) (rows x))"
    using wf ib by (intro wf_looked_up_rows) simp_all
  show ?thesis
  proof (cases cls)
    case SimpleFactor
    have "SimpleFactor_get_lhs m x =
        Inr (Mat (dims m) (map (\<lambda>t. map2 (*) (vector_of (entities m) (t ! 0))
                                            (vector_of (relations m) (t ! 1))) (rows x)))"
      using SimpleFactor_get_lhs_value[of m x] wf ib assms(3) by simp
    moreover have "list_all (\<lambda>v. length v = dims m)
        (map (\<lambda>t. map2 (*) (vector_of (entities m) (t ! 0))
                            (vector_of (relations m) (t ! 1))) (rows x))"
      using wf ib by (intro wf_combined_rows) simp_all
    ultimately show ?thesis
      using SimpleFactor base base_wf by (simp add: get_lhs_def get_rhs_def nrows_def)
  next
    case TransE
    have "TransE_get_lhs m x =
        Inr (Mat (dims m) (map (\<lambda>t. map2 (+) (vector_of (entities m) (t ! 0))
                                            (vector_of (relations m) (t ! 1))) (rows x)))"
      using TransE_get_lhs_value[of m x] wf ib assms(3) by simp
    moreover have "list_all (\<lambda>v. length v = dims m)
        (map (\<lambda>t. map2 (+) (vector_of (entities m) (t ! 0))
                            (vector_of (relations m) (t ! 1))) (rows x))"
      using wf ib by (intro wf_combined_rows) simp_all
    ultimately show ?thesis
      using TransE base base_wf by (simp add: get_lhs_def get_rhs_def nrows_def)
  next
    case MuREuclidean
    have "MuREuclidean_get_lhs m x =
        Inr (Mat (dims m) (map (\<lambda>t. map2 (*) (vector_of (transforms m) (t ! 1))
                                            (vector_of (entities m) (t ! 0))) (rows x)))"
      using MuREuclidean_get_lhs_value[of m x] wf ib tb assms(3) by simp
    moreover have "list_all (\<lambda>v. length v = dims m)
        (map (\<lambda>t. map2 (*) (vector_of (transforms m) (t ! 1))
                            (vector_of (entities m) (t ! 0))) (rows x))"
      using wf ib tb by (intro wf_combined_rows) simp_all
    moreover have "MuREuclidean_get_rhs m x =
        Inr (Mat (dims m) (map (\<lambda>t. map2 (+) (vector_of (entities m) (last t))
                                            (vector_of (relations m) (t ! 1))) (rows x)))"
      using MuREuclidean_get_rhs_value[of m x] wf ib assms(2,3) by simp
    moreover have "list_all (\<lambda>v. length v = dims m)
        (map (\<lambda>t. map2 (+) (vector_of (entities m) (last t))
                            (vector_of (relations m) (t ! 1))) (rows x))"
      using wf ib by (intro wf_combined_rows) simp_all
    ultimately show ?thesis
      using MuREuclidean by (simp add: get_lhs_def get_rhs_def nrows_def)
  next
    case RotRefEuclidean
    with assms(5) obtain h where h: "get_heads m x = Inr h" "wf_mat h" "ncols h = dims m"
      "nrows h = nrows x"
      by auto
    have "RotRefEuclidean_get_lhs get_heads m x =
        Inr (Mat (ncols h)
              (map2 (map2 (+)) (rows h) (map (\<lambda>t. vector_of (relations m) (t ! 1)) (rows x))))"
      using h wf ib assms(3) by (intro RotRefEuclidean_get_lhs_value) simp_all
    moreover have "list_all (\<lambda>v. length v = dims m)
        (map2 (map2 (+)) (rows h) (map (\<lambda>t. vector_of (relations m) (t ! 1)) (rows x)))"
    proof (rule wf_map2_rows)
      show "list_all (\<lambda>v. length v = dims m) (rows h)"
        using h(2,3) by (simp add: wf_mat_def)
      show "list_all (\<lambda>v. length v = dims m) (map (\<lambda>t. vector_of (relations m) (t ! 1)) (rows x))"
        using wf ib by (intro wf_looked_up_rows) simp_all
    qed
    ultimately show ?thesis
      using RotRefEuclidean base base_wf h(3,4)
      by (simp add: get_lhs_def get_rhs_def nrows_def)
  qed
qed

text \<open>Claim C6 on the concrete model, for \<^verbatim>\<open>RotRefEuclidean\<close> with the stand-in \<open>get_heads\<close>.\<close>

theorem lhs_rhs_dimension_witness:
  "wf_model ex_model \<and> wf_mat ex_batch \<and> 1 < ncols ex_batch \<and>
   triples_in_bounds ex_model ex_batch \<and>
   (\<exists>h. ex_get_heads ex_model ex_batch = Inr h \<and> wf_mat h \<and> ncols h = dims ex_model \<and>
      nrows h = nrows ex_batch) \<and>
   (\<exists>lhs rhs. get_lhs RotRefEuclidean ex_get_heads ex_model ex_batch = Inr lhs \<and>
      get_rhs RotRefEuclidean ex_model ex_batch = Inr rhs \<and>
      list_all (\<lambda>v. length v = 2) (rows lhs) \<and> list_all (\<lambda>v. length v = 2) (rows rhs) \<and>
      ncols lhs = 2 \<and> ncols rhs = 2 \<and> ncols lhs = ncols rhs \<and>
      nrows lhs = 2 \<and> nrows rhs = 2)"
proof -
  have h: "\<exists>h. ex_get_heads ex_model ex_batch = Inr h \<and> wf_mat h \<and> ncols h = dims ex_model \<and>
      nrows h = nrows ex_batch"
    by (simp add: ex_get_heads_def slice_column_def embedding_def ex_model_def ex_batch_def
        nrows_def)
  have b: "1 < ncols ex_batch" "dims ex_model = 2" "nrows ex_batch = 2"
    by (simp_all add: ex_batch_def ex_model_def)
  show ?thesis
    using lhs_rhs_dimension[OF ex_model_ok ex_batch_ok(1) b(1) ex_batch_ok(3),
        of RotRefEuclidean ex_get_heads] h b ex_model_ok ex_batch_ok
    by simp
qed

text \<open>
  Claim C7. \<open>get_lhs\<close>, \<open>get_rhs\<close> and \<open>similarity_score\<close> raise an error if and only if an
  id they look up is out of the bounds of its table or the shape of an operand does not
  conform: a batch with too few columns for the columns read, or operands of
  \<open>similarity_score\<close> whose shapes do not fit. So with ids in bounds and conforming shapes
  every operation succeeds. For \<^verbatim>\<open>RotRefEuclidean\<close>, whose \<open>get_heads\<close> is not in the sources,
  \<open>get_lhs\<close> fails when \<open>get_heads\<close> fails, and where \<open>get_heads\<close> returns one vector of the
  model's dimension for each row it fails exactly on a missing relation column or a
  relation id out of bounds.
\<close>

theorem errors_iff_out_of_bounds_or_shape_mismatch:
  fixes m :: "'a::{plus,minus,times,uminus,zero} model"
  assumes "wf_model m" and "wf_mat x"
  shows "(isl (get_rhs cls m x) \<longleftrightarrow>
            \<not> (if cls = MuREuclidean
               then 1 < ncols x \<and> tails_in_bounds m x \<and> relations_in_bounds m x
               else 0 < ncols x \<and> tails_in_bounds m x)) \<and>
         (cls \<noteq> RotRefEuclidean \<longrightarrow>
            (isl (get_lhs cls get_heads m x) \<longleftrightarrow>
               \<not> (1 < ncols x \<and> heads_in_bounds m x \<and> relations_in_bounds m x))) \<and>
         (\<forall>h. get_heads m x = Inr h \<and> wf_mat h \<and> ncols h = dims m \<and> nrows h = nrows x \<longrightarrow>
            (isl (get_lhs RotRefEuclidean get_heads m x) \<longleftrightarrow>
               \<not> (1 < ncols x \<and> relations_in_bounds m x))) \<and>
         (isl (get_heads m x) \<longrightarrow> isl (get_lhs RotRefEuclidean get_heads m x)) \<and>
         (isl (similarity_score cls lhs rhs all_items) \<longleftrightarrow>
            \<not> shapes_conform cls lhs rhs all_items) \<and>
         (isl (UserAttentiveEuclidean_similarity_score lhs rhs3 all_items) \<longleftrightarrow>
            \<not> shapes_conform_UserAttentive lhs rhs3 all_items)"
proof (intro conjI)
  show "isl (get_rhs cls m x) \<longleftrightarrow>
            \<not> (if cls = MuREuclidean
               then 1 < ncols x \<and> tails_in_bounds m x \<and> relations_in_bounds m x
               else 0 < ncols x \<and> tails_in_bounds m x)"
    using isl_CFEuclideanBase_get_rhs[OF assms(2), of m] isl_MuREuclidean_get_rhs[OF assms]
    by (cases cls) (simp_all add: get_rhs_def)
  show "cls \<noteq> RotRefEuclidean \<longrightarrow>
            (isl (get_lhs cls get_heads m x) \<longleftrightarrow>
               \<not> (1 < ncols x \<and> heads_in_bounds m x \<and> relations_in_bounds m x))"
    using isl_SimpleFactor_get_lhs[OF assms(1), of x] isl_TransE_get_lhs[OF assms(1), of x]
      isl_MuREuclidean_get_lhs[OF assms(1), of x]
    by (cases cls) (simp_all add: get_lhs_def)
  show "\<forall>h. get_heads m x = Inr h \<and> wf_mat h \<and> ncols h = dims m \<and> nrows h = nrows x \<longrightarrow>
            (isl (get_lhs RotRefEuclidean get_heads m x) \<longleftrightarrow>
               \<not> (1 < ncols x \<and> relations_in_bounds m x))"
    using isl_RotRefEuclidean_get_lhs[OF assms(1), of get_heads x]
    by (simp add: get_lhs_def)
  show "isl (get_heads m x) \<longrightarrow> isl (get_lhs RotRefEuclidean get_heads m x)"
    using isl_RotRefEuclidean_get_lhs_heads[of get_heads m x] by (simp add: get_lhs_def)
  show "isl (similarity_score cls lhs rhs all_items) \<longleftrightarrow> \<not> shapes_conform cls lhs rhs all_items"
    using isl_CFEuclideanBase_similarity_score[of lhs rhs all_items]
      isl_SimpleFactor_similarity_score[of lhs rhs all_items]
    by (cases cls) (simp_all add: similarity_score_def shapes_conform_def)
  show "isl (UserAttentiveEuclidean_similarity_score lhs rhs3 all_items) \<longleftrightarrow>
            \<not> shapes_conform_UserAttentive lhs rhs3 all_items"
    by (rule isl_UserAttentiveEuclidean_similarity_score)
qed

text \<open>
  Claim C7 on the concrete model: no error on the batch in bounds and on operands of equal
  shape; an error on the batch out of bounds and on operands of different dimensions.
\<close>

theorem errors_iff_out_of_bounds_or_shape_mismatch_witness:
  "wf_model ex_model \<and> wf_mat ex_batch \<and> wf_mat ex_bad_batch \<and>
   \<not> isl (get_rhs TransE ex_model ex_batch) \<and>
   \<not> isl (get_lhs TransE ex_get_heads ex_model ex_batch) \<and>
   \<not> isl (get_lhs RotRefEuclidean ex_get_heads ex_model ex_batch) \<and>
   \<not> isl (similarity_score TransE (Mat 2 [[1, 2]]) (Mat 2 [[3, 4 :: int]]) False) \<and>
   \<not> isl (UserAttentiveEuclidean_similarity_score (Mat 2 [[1, 2]]) (Rank2 (Mat 2 [[3, 4 :: int]])) False) \<and>
   \<not> tails_in_bounds ex_model ex_bad_batch \<and> isl (get_rhs TransE ex_model ex_bad_batch) \<and>
   \<not> relations_in_bounds ex_model ex_bad_batch \<and>
   isl (get_lhs TransE ex_get_heads ex_model ex_bad_batch) \<and>
   \<not> shapes_conform TransE (Mat 2 [[1, 2]]) (Mat 3 [[3, 4, 5 :: int]]) False \<and>
   isl (similarity_score TransE (Mat 2 [[1, 2]]) (Mat 3 [[3, 4, 5 :: int]]) False)"
proof -
  have bad: "wf_mat ex_bad_batch" "\<not> tails_in_bounds ex_model ex_bad_batch"
    "\<not> relations_in_bounds ex_model ex_bad_batch"
    by (simp_all add: ex_bad_batch_def ex_model_def tails_in_bounds_def relations_in_bounds_def
        in_bounds_def)
  have good: "1 < ncols ex_batch" "heads_in_bounds ex_model ex_batch"
    "relations_in_bounds ex_model ex_batch" "tails_in_bounds ex_model ex_batch"
    using ex_batch_ok by (simp_all add: triples_in_bounds_def)
  have heads: "ex_get_heads ex_model ex_batch = Inr (Mat 2 [[1, 2], [3, 5]])"
    by (simp add: ex_get_heads_def slice_column_def embedding_def ex_model_def ex_batch_def
        nrows_def)
  have shapes: "dims ex_model = 2" "nrows ex_batch = 2"
    "shapes_conform TransE (Mat 2 [[1, 2]]) (Mat 2 [[3, 4 :: int]]) False"
    "shapes_conform_UserAttentive (Mat 2 [[1, 2]]) (Rank2 (Mat 2 [[3, 4 :: int]])) False"
    "\<not> shapes_conform TransE (Mat 2 [[1, 2]]) (Mat 3 [[3, 4, 5 :: int]]) False"
    by (simp_all add: ex_model_def ex_batch_def shapes_conform_def
        shapes_conform_UserAttentive_def)
  show ?thesis
    using errors_iff_out_of_bounds_or_shape_mismatch[OF ex_model_ok ex_batch_ok(1),
        of TransE ex_get_heads "Mat 2 [[1, 2 :: int]]" "Mat 2 [[3, 4 :: int]]" False
          "Rank2 (Mat 2 [[3, 4 :: int]])"]
      errors_iff_out_of_bounds_or_shape_mismatch[OF ex_model_ok bad(1),
        of TransE ex_get_heads "Mat 2 [[1, 2 :: int]]" "Mat 3 [[3, 4, 5 :: int]]" False
          "Rank2 (Mat 2 [[3, 4 :: int]])"]
      ex_model_ok ex_batch_ok(1) bad good heads shapes
    by simp
qed

text \<open>
  Claim C8. For \<open>SimpleFactor.similarity_score\<close> the path of \<open>all_items = True\<close> agrees
  pointwise with the path of \<open>all_items = False\<close>: for \<open>lhs\<close> of shape \<open>B1 \<times> d\<close> and \<open>rhs\<close> of
  shape \<open>B2 \<times> d\<close>, entry \<open>(i, j)\<close> of \<open>matmul(lhs, transpose(rhs))\<close> is the dot product
  \<open>reduce_sum(lhs[i] * rhs[j])\<close>, which is the score the other path gives to the rows
  \<open>lhs[i]\<close> and \<open>rhs[j]\<close>.
\<close>

theorem SimpleFactor_all_items_agrees:
  fixes lhs rhs :: "'a::{plus,times,zero} mat"
  assumes "wf_mat lhs" and "wf_mat rhs" and "ncols lhs = ncols rhs"
    and "i < nrows lhs" and "j < nrows rhs"
  shows "\<exists>s. SimpleFactor_similarity_score lhs rhs True = Inr s \<and>
           nrows s = nrows lhs \<and> ncols s = nrows rhs \<and> wf_mat s \<and>
           rows s ! i ! j = reduce_sum (map2 (*) (rows lhs ! i) (rows rhs ! j)) \<and>
           SimpleFactor_similarity_score (Mat (ncols lhs) [rows lhs ! i])
               (Mat (ncols rhs) [rows rhs ! j]) False =
             Inr (Mat 1 [[rows s ! i ! j]])"
proof -
  obtain s where s: "tf_matmul lhs (tf_transpose rhs) = Inr s" "nrows s = nrows lhs"
      "ncols s = nrows rhs" "wf_mat s"
      "rows s ! i ! j = reduce_sum (map2 (*) (rows lhs ! i) (rows rhs ! j))"
    using matmul_transpose_entry[OF assms(2-5)] by blast
  have "SimpleFactor_similarity_score (Mat (ncols lhs) [rows lhs ! i])
           (Mat (ncols rhs) [rows rhs ! j]) False = Inr (Mat 1 [[rows s ! i ! j]])"
    using SimpleFactor_score_of_rows[of "rows lhs ! i" "ncols lhs" "rows rhs ! j"]
      wf_mat_row[OF assms(1,4)] wf_mat_row[OF assms(2,5)] assms(3) s(5)
    by simp
  with s show ?thesis
    by (simp add: SimpleFactor_similarity_score_def)
qed

text \<open>Claim C8 on concrete operands, at the entry \<open>(1, 2)\<close>.\<close>

theorem SimpleFactor_all_items_agrees_witness:
  "wf_mat ex_lhs \<and> wf_mat ex_rhs \<and> ncols ex_lhs = ncols ex_rhs \<and>
   1 < nrows ex_lhs \<and> 2 < nrows ex_rhs \<and>
   SimpleFactor_similarity_score ex_lhs ex_rhs True =
     Inr (Mat 3 [[5, - 2, 19], [11, - 4, 43]]) \<and>
   SimpleFactor_similarity_score (Mat 2 [[3, 4]]) (Mat 2 [[5, 7]]) False =
     Inr (Mat 1 [[43 :: int]])"
proof -
  have h: "wf_mat ex_lhs" "wf_mat ex_rhs" "ncols ex_lhs = ncols ex_rhs"
    "1 < nrows ex_lhs" "2 < nrows ex_rhs"
    by (simp_all add: ex_lhs_def ex_rhs_def)
  have v: "SimpleFactor_similarity_score ex_lhs ex_rhs True =
      Inr (Mat 3 [[5, - 2, 19], [11, - 4, 43]])"
    by (simp add: SimpleFactor_similarity_score_def tf_matmul_def tf_transpose_def
        reduce_sum_def ex_lhs_def ex_rhs_def nrows_def upt_rec)
  show ?thesis
    using SimpleFactor_all_items_agrees[OF h] h v
    by (auto simp: ex_lhs_def ex_rhs_def)
qed

text \<open>
  Claim C9. For \<open>lhs\<close> and \<open>rhs\<close> of matching shape the score of \<^verbatim>\<open>CFEuclideanBase\<close> with
  \<open>all_items = False\<close> is non-positive on every row, and it is zero on a row exactly when
  the two rows are equal, in exact arithmetic (an ordered ring).
\<close>

theorem similarity_score_nonpositive:
  fixes lhs rhs :: "'a::linordered_idom mat"
  assumes "wf_mat lhs" and "wf_mat rhs" and "nrows lhs = nrows rhs" and "ncols lhs = ncols rhs"
    and "i < nrows lhs"
  shows "\<exists>s v. CFEuclideanBase_similarity_score lhs rhs False = Inr s \<and>
           nrows s = nrows lhs \<and> ncols s = 1 \<and> rows s ! i = [v] \<and> v \<le> 0 \<and>
           (v = 0 \<longleftrightarrow> rows lhs ! i = rows rhs ! i)"
proof -
  let ?v = "- sq_distance (rows lhs ! i) (rows rhs ! i)"
  have "length (rows lhs ! i) = length (rows rhs ! i)"
    using wf_mat_row[OF assms(1,5)] wf_mat_row[OF assms(2)] assms(3,4,5) by simp
  then have "?v = 0 \<longleftrightarrow> rows lhs ! i = rows rhs ! i"
    by (simp add: sq_distance_zero_iff)
  moreover have "?v \<le> 0"
    by (simp add: sq_distance_nonneg)
  ultimately show ?thesis
    using score_of_matching_rows[OF assms(3,4,5)] by blast
qed

text \<open>Claim C9 on concrete operands: the first rows are equal, the second are not.\<close>

theorem similarity_score_nonpositive_witness:
  "wf_mat ex_lhs \<and> wf_mat ex_scored \<and> nrows ex_lhs = nrows ex_scored \<and>
   ncols ex_lhs = ncols ex_scored \<and> 0 < nrows ex_lhs \<and> 1 < nrows ex_lhs \<and>
   CFEuclideanBase_similarity_score ex_lhs ex_scored False = Inr (Mat 1 [[0], [- 25]]) \<and>
   rows ex_lhs ! 0 = rows ex_scored ! 0 \<and> rows ex_lhs ! 1 \<noteq> rows ex_scored ! 1"
proof -
  have h: "wf_mat ex_lhs" "wf_mat ex_scored" "nrows ex_lhs = nrows ex_scored"
    "ncols ex_lhs = ncols ex_scored"
    and i: "0 < nrows ex_lhs" "1 < nrows ex_lhs"
    by (simp_all add: ex_lhs_def ex_scored_def)
  have v: "CFEuclideanBase_similarity_score ex_lhs ex_scored False = Inr (Mat 1 [[0], [- 25]])"
    by (simp add: CFEuclideanBase_similarity_score_def euclidean_sq_distance_def
        tf_negative_def ex_lhs_def ex_scored_def)
  show ?thesis
    using similarity_score_nonpositive[OF h i(1)] similarity_score_nonpositive[OF h i(2)] h i v
    by (auto simp: ex_lhs_def ex_scored_def)
qed

text \<open>
  Claim C10. With \<open>all_items = False\<close> the scores of \<^verbatim>\<open>CFEuclideanBase\<close> and of
  \<^verbatim>\<open>SimpleFactor\<close> are symmetric in their arguments, in exact arithmetic (a commutative
  ring). It holds for operands of matching shape and for all others: the shapes accepted
  are symmetric as well.
\<close>

theorem similarity_score_symmetric:
  fixes lhs rhs :: "'a::comm_ring mat"
  shows "CFEuclideanBase_similarity_score lhs rhs False =
           CFEuclideanBase_similarity_score rhs lhs False \<and>
         SimpleFactor_similarity_score lhs rhs False =
           SimpleFactor_similarity_score rhs lhs False"
proof
  have "map2 (\<lambda>u v. [sq_distance u v]) (rows lhs) (rows rhs) =
        map2 (\<lambda>u v. [sq_distance u v]) (rows rhs) (rows lhs)"
    by (rule map2_commute) (simp add: sq_distance_commute)
  then show "CFEuclideanBase_similarity_score lhs rhs False =
      CFEuclideanBase_similarity_score rhs lhs False"
    by (simp add: CFEuclideanBase_similarity_score_def euclidean_sq_distance_def)
next
  have "tf_multiply lhs rhs = tf_multiply rhs lhs"
    unfolding tf_multiply_def by (rule elementwise_commute) (simp add: mult.commute)
  then show "SimpleFactor_similarity_score lhs rhs False =
      SimpleFactor_similarity_score rhs lhs False"
    by (simp add: SimpleFactor_similarity_score_def)
qed

end
